theory Spec2Isabelle
  imports Complex_Main "HOL-Library.Word" "HOL-Library.Log_Nat"
begin

unbundle bit_operations_syntax

text \<open>
  A shallow embedding of the simulation core: the seeded random number generator, the
  TSRA (baseline) policy, the genetic optimizer, the P-TSRA (predictive) policy and the
  simulation driver.

  JavaScript numbers are modelled as follows. Integer-valued numbers whose exact value
  matters (the generator's state, counts, indices) are naturals or integers, and the one
  place where double precision rounds an integer (the generator's running state) is
  modelled with the rounding written out. All other quantities (bits, joules, hertz,
  watts) are real numbers, and rounding error is outside the model. The seeded generator
  can return an infinity or NaN (\<open>gaussian\<close>, when its first draw is exactly 0): its
  results are values of type \<open>number\<close>, and the operations applied to them before they
  enter the arithmetic of a slot (\<open>Math.max\<close>, \<open>Math.min\<close>, \<open>Math.round\<close>, a product, a
  sum) are modelled on that type. The arithmetic of a slot itself is on real numbers:
  when a value that is not finite would enter it, the model stops with the outcome
  \<open>NonFinite\<close> and says nothing about what the code computes from there on. Results
  about real quantities are stated for parameters where no division by zero and no
  logarithm or root of a negative number occurs.
\<close>

section \<open>Numbers and outcomes\<close>

datatype number = Finite real | PosInfinity | NegInfinity | NaN

text \<open>
  How a call ends: it returns a value, it raises a TypeError (a field of \<open>undefined\<close> is
  read), or a number that is not finite has entered its arithmetic.
\<close>

datatype 'a outcome = Returned 'a | TypeError | NonFinite

text \<open>
  \<open>Math.max(a, x)\<close>, \<open>Math.min(a, x)\<close>, \<open>a + x\<close> and \<open>x * a\<close> for a finite \<open>a\<close>, and
  \<open>Math.round(x)\<close>.
\<close>

definition js_max :: "real \<Rightarrow> number \<Rightarrow> number" where
  "js_max a x =
     (case x of Finite v \<Rightarrow> Finite (max a v) | PosInfinity \<Rightarrow> PosInfinity
      | NegInfinity \<Rightarrow> Finite a | NaN \<Rightarrow> NaN)"

definition js_min :: "real \<Rightarrow> number \<Rightarrow> number" where
  "js_min a x =
     (case x of Finite v \<Rightarrow> Finite (min a v) | PosInfinity \<Rightarrow> Finite a
      | NegInfinity \<Rightarrow> NegInfinity | NaN \<Rightarrow> NaN)"

definition js_plus :: "real \<Rightarrow> number \<Rightarrow> number" where
  "js_plus a x =
     (case x of Finite v \<Rightarrow> Finite (a + v) | PosInfinity \<Rightarrow> PosInfinity
      | NegInfinity \<Rightarrow> NegInfinity | NaN \<Rightarrow> NaN)"

definition js_times :: "number \<Rightarrow> real \<Rightarrow> number" where
  "js_times x a =
     (case x of
        Finite v \<Rightarrow> Finite (v * a)
      | PosInfinity \<Rightarrow> (if a > 0 then PosInfinity else if a < 0 then NegInfinity else NaN)
      | NegInfinity \<Rightarrow> (if a > 0 then NegInfinity else if a < 0 then PosInfinity else NaN)
      | NaN \<Rightarrow> NaN)"

definition js_round :: "number \<Rightarrow> number" where
  "js_round x =
     (case x of Finite v \<Rightarrow> Finite (real_of_int \<lfloor>v + 1 / 2\<rfloor>) | PosInfinity \<Rightarrow> PosInfinity
      | NegInfinity \<Rightarrow> NegInfinity | NaN \<Rightarrow> NaN)"

section \<open>Seeded random number generator\<close>

text \<open>
  \<open>fl53 x\<close> is the double nearest to the natural number \<open>x\<close> (round to nearest, ties to
  even, 53-bit significand): the value of a double-precision addition whose exact result
  is \<open>x\<close>. Naturals below \<open>2^53\<close> are represented exactly.
\<close>

definition fl53 :: "nat \<Rightarrow> nat" where
  "fl53 x =
     (if x < 2 ^ 53 then x
      else let e = floorlog 2 x - 53;
               q = x div 2 ^ e;
               r = x mod 2 ^ e;
               h = 2 ^ (e - 1)
           in if r < h \<or> (r = h \<and> even q) then q * 2 ^ e else (q + 1) * 2 ^ e)"

text \<open>
  The object's only field is \<open>state\<close>, a number; the constructor stores \<open>seed >>> 0\<close>.
  Every method takes the state and returns the new one with its result.
\<close>

definition SeededRandom :: "int \<Rightarrow> nat" where
  "SeededRandom seed = nat (seed mod 2 ^ 32)"

text \<open>\<open>Math.imul\<close>: the low 32 bits of the product.\<close>

definition imul :: "32 word \<Rightarrow> 32 word \<Rightarrow> 32 word" where
  "imul a b = a * b"

text \<open>
  \<open>random()\<close>. The statement \<open>this.state += 0x6d2b79f5\<close> is an addition of numbers, not
  of 32-bit integers: the state is not truncated and grows with every call. The bitwise
  operators then read the sum modulo \<open>2^32\<close>.
\<close>

definition random :: "nat \<Rightarrow> real \<times> nat" where
  "random state =
     (let state' = fl53 (state + 0x6d2b79f5);
          t0 = (word_of_nat state' :: 32 word);
          t1 = imul (t0 XOR drop_bit 15 t0) (t0 OR 1);
          t2 = t1 XOR (t1 + imul (t1 XOR drop_bit 7 t1) (t1 OR 61))
      in (real (unat (t2 XOR drop_bit 14 t2)) / 4294967296, state'))"

definition uniform :: "real \<Rightarrow> real \<Rightarrow> nat \<Rightarrow> real \<times> nat" where
  "uniform mn mx s = (let (r, s') = random s in (r * (mx - mn) + mn, s'))"

text \<open>
  \<open>gaussian\<close>, the Box-Muller transform. When the first draw \<open>u1\<close> is exactly 0,
  \<open>Math.log(u1)\<close> is \<open>-Infinity\<close> and \<open>z0\<close> is \<open>Infinity\<close> times the cosine: an
  infinity with the sign of the cosine. The double cosine is never 0: where the real
  one is (\<open>u2 = 1/4\<close> and \<open>u2 = 3/4\<close>) it is \<open>6.1e-17\<close> and \<open>-1.8e-16\<close>. Then
  \<open>z0 * std\<close> is NaN for \<open>std = 0\<close> and an infinity otherwise, and adding the mean
  changes neither.
\<close>

definition gaussian :: "real \<Rightarrow> real \<Rightarrow> nat \<Rightarrow> number \<times> nat" where
  "gaussian mean std s =
     (let (u1, s1) = random s;
          (u2, s2) = random s1
      in if u1 = 0
         then (let z0 = (if 0 < cos (2 * pi * u2) \<or> u2 = 1 / 4 then PosInfinity else NegInfinity)
               in (js_plus mean (js_times z0 std), s2))
         else (let z0 = sqrt (- 2 * ln u1) * cos (2 * pi * u2)
               in (Finite (z0 * std + mean), s2)))"

text \<open>The state after \<open>n\<close> calls of \<open>random()\<close>, and the values those calls return.\<close>

primrec random_state :: "nat \<Rightarrow> nat \<Rightarrow> nat" where
  "random_state 0 s = s"
| "random_state (Suc n) s = random_state n (snd (random s))"

primrec random_seq :: "nat \<Rightarrow> nat \<Rightarrow> real list" where
  "random_seq 0 s = []"
| "random_seq (Suc n) s = fst (random s) # random_seq n (snd (random s))"

subsection \<open>Range of the generator\<close>

lemma u32_real: "0 \<le> (unsigned (w :: 32 word) :: real) \<and> (unsigned w :: real) < 4294967296"
proof -
  have "unat w < 4294967296"
    using unsigned_less [of w, where ?'a = nat] by simp
  then have "real (unat w) < 4294967296" by linarith
  moreover have "0 \<le> real (unat w)" by (rule of_nat_0_le_iff)
  ultimately show ?thesis by simp
qed

lemma random_range: "0 \<le> fst (random s) \<and> fst (random s) < 1"
  using u32_real by (simp add: random_def Let_def)

subsection \<open>The Poisson generator\<close>

lemma random_le: "fst (random s) \<le> 4294967295 / 4294967296"
proof -
  have "unat w \<le> 4294967295" for w :: "32 word"
    using unsigned_less [of w, where ?'a = nat] by simp
  then have "real (unat w) \<le> 4294967295" for w :: "32 word"
    by (metis of_nat_le_iff of_nat_numeral)
  then have "(unsigned w :: real) \<le> 4294967295" for w :: "32 word"
    by simp
  then show ?thesis
    by (simp add: random_def Let_def)
qed

lemma poisson_measure:
  fixes p r L :: real
  assumes L: "0 < L" and r: "0 \<le> r" "r \<le> 4294967295 / 4294967296" and c: "L < p * r"
  shows "nat \<lceil>ln (p * r / L) / ln (4294967296 / 4294967295)\<rceil>
           < nat \<lceil>ln (p / L) / ln (4294967296 / 4294967295)\<rceil>"
proof -
  define c where "c = ln (4294967296 / 4294967295 :: real)"
  have cpos: "0 < c" unfolding c_def by simp
  have pr: "0 < p * r" using L c by simp
  have rpos: "0 < r"
  proof (rule ccontr)
    assume "\<not> 0 < r"
    then have "r = 0" using r by simp
    then show False using pr by simp
  qed
  have ppos: "0 < p" using pr rpos by (simp add: zero_less_mult_iff)
  have x'pos: "0 < ln (p * r / L)" using L c by simp
  have "ln r \<le> ln (4294967295 / 4294967296 :: real)" using rpos r by simp
  also have "\<dots> = - c" unfolding c_def by (simp add: ln_div)
  finally have lr: "ln r \<le> - c" .
  have "ln (p * r / L) = ln (p / L) + ln r"
    using ppos rpos L by (simp add: ln_mult ln_div)
  then have "ln (p * r / L) + c \<le> ln (p / L)" using lr by simp
  then have "(ln (p * r / L) + c) / c \<le> ln (p / L) / c"
    using cpos by (intro divide_right_mono) simp_all
  then have "ln (p * r / L) / c + 1 \<le> ln (p / L) / c"
    using cpos by (simp add: add_divide_distrib)
  then have "\<lceil>ln (p * r / L) / c\<rceil> + 1 \<le> \<lceil>ln (p / L) / c\<rceil>"
    by (metis ceiling_add_one ceiling_mono)
  moreover have "0 < \<lceil>ln (p * r / L) / c\<rceil>" using x'pos cpos by simp
  ultimately show ?thesis unfolding c_def by linarith
qed

function poissonLoop :: "real \<Rightarrow> nat \<Rightarrow> real \<Rightarrow> nat \<Rightarrow> nat \<times> nat" where
  "poissonLoop lam k p s =
     (let r = fst (random s);
          s' = snd (random s);
          k' = k + 1;
          p' = p * r
      in if p' > exp (- lam) then poissonLoop lam k' p' s' else (k', s'))"
  by pat_completeness auto
termination
proof (relation "measure (\<lambda>(lam, k, p, s). nat \<lceil>ln (p / exp (- lam)) / ln (4294967296 / 4294967295)\<rceil>)")
  show "wf (measure (\<lambda>(lam, k, p, s). nat \<lceil>ln (p / exp (- lam)) / ln (4294967296 / 4294967295)\<rceil>))"
    by simp
next
  fix lam :: real and k :: nat and p :: real and s :: nat and r s' k' p'
  assume "r = fst (random s)" and "p' = p * r" and "exp (- lam) < p'"
  then have "exp (- lam) < p * fst (random s)" by simp
  from poisson_measure [OF _ _ random_le this] random_range [of s]
  show "((lam, k', p', s'), lam, k, p, s)
          \<in> measure (\<lambda>(lam, k, p, s). nat \<lceil>ln (p / exp (- lam)) / ln (4294967296 / 4294967295)\<rceil>)"
    using \<open>r = fst (random s)\<close> \<open>p' = p * r\<close> by simp
qed

definition poisson :: "real \<Rightarrow> nat \<Rightarrow> number \<times> nat" where
  "poisson lam s =
     (if lam < 30
      then (let (k, s') = poissonLoop lam 0 1 s in (Finite (real k - 1), s'))
      else (let (g, s') = gaussian lam (sqrt lam) s
            in (js_max 0 (js_round g), s')))"

section \<open>Data model (types/experiment.ts)\<close>

datatype ArrivalType = ArrPoisson | ArrFixed | ArrUniform

record ArrivalModel =
  arrival_type :: ArrivalType
  lambda :: "real option"
  value_bits :: "real option"
  min_bits :: "real option"
  max_bits :: "real option"

datatype HarvestType = HarvBernoulli | HarvConstant | HarvGaussian

record HarvestModel =
  harvest_type :: HarvestType
  harvest_p :: "real option"
  value_J :: "real option"
  mean_J :: "real option"
  std_J :: "real option"

datatype OffloadMode = Binary | Fractional

record SensorConfig =
  sensor_id :: string
  J_mean_bits_per_slot :: real
  arrival_model :: ArrivalModel
  initial_queue_bits :: real
  battery_J :: real
  harvest_mean_J_per_slot :: real
  harvest_model :: HarvestModel
  f_max_Hz :: real
  delta_cycles_per_bit :: real
  p_max_W :: real
  channel_mean_gain :: real
  channel_variance :: real
  offload_mode :: OffloadMode
  priority_weight :: real

record EdgeServerConfig =
  edge_id :: string
  f_k_Hz :: real
  edge_f_max_Hz :: real
  num_cores :: nat

record CloudConfig =
  latency_s :: real
  compute_capacity_cycles_per_slot :: real

record OptimizerConfig =
  cfg_population :: nat
  cfg_generations :: nat
  mutation_prob :: real
  random_restarts :: nat
  max_evals :: nat
  time_budget_s :: "real option"

record GlobalParams =
  default_delta_cycles_per_bit :: real
  theta :: real
  noise_power_W :: real
  tau_s :: real

datatype OptMode = PerSlot | PerHorizon

record ExperimentConfig =
  experiment_name :: string
  cfg_seed :: int
  slots :: nat
  slot_duration_s :: real
  bandwidth_Hz :: real
  cfg_V :: real
  prediction_horizon :: nat
  opt_mode :: OptMode
  optimizer :: OptimizerConfig
  global_params :: GlobalParams
  cfg_sensors :: "SensorConfig list"
  edge_servers :: "EdgeServerConfig list"
  cloud :: CloudConfig

record SensorSlotResult =
  res_id :: string
  res_H_l :: real
  res_H_o :: real
  res_H_k :: real
  res_alpha :: real
  local_energy_J :: real
  tx_energy_J :: real
  p_tx_W :: real
  f_cpu_Hz :: real
  arrival_bits :: real
  harvest_J :: real
  res_battery_J :: real

record ESAllocation =
  es_sensor_id :: string
  es_xi :: real
  processed_bits :: real

record EdgeSlotResult =
  ES_allocations :: "ESAllocation list"

record GlobalMetrics =
  total_backlog_bits :: real
  total_energy_J :: real
  best_fitness :: real
  avg_latency_ms :: real

datatype Algorithm = TSRA | P_TSRA

record SlotResult =
  res_slot :: nat
  sensor_results :: "SensorSlotResult list"
  edge_results :: EdgeSlotResult
  global_metrics :: GlobalMetrics
  algorithm :: Algorithm

record OptimizerLogEntry =
  log_slot :: nat
  generation :: nat
  log_best_fitness :: real
  avg_fitness :: real
  infeasible_count :: nat
  elapsed_ms :: real

datatype Status = Running | Completed | Error | Cancelled

record SimulationState =
  run_id :: string
  status :: Status
  current_slot :: nat
  total_slots :: nat
  tsra_results :: "SlotResult list"
  ptsra_results :: "SlotResult list"
  optimizer_log :: "OptimizerLogEntry list"

section \<open>The baseline policy (tsra.ts)\<close>

record SensorState =
  H_l :: real
  H_o :: real
  H_k :: real
  B_u :: real

record SlotDecision =
  dec_kappa :: nat
  dec_alpha :: real
  dec_f_u :: real
  dec_p_u :: real
  dec_xi_u :: real

text \<open>
  The immutable fields of a \<open>TSRAAlgorithm\<close> object. Its generator \<open>this.random\<close> is
  the one field that changes: its state is passed to every method that draws from it and
  returned with the result.
\<close>

record TSRAAlgorithm =
  alg_V :: real
  tau :: real
  bandwidth :: real
  globalParams :: GlobalParams

text \<open>JavaScript's \<open>x || d\<close> on an optional number: \<open>d\<close> when \<open>x\<close> is undefined or 0.\<close>

definition js_or :: "real option \<Rightarrow> real \<Rightarrow> real" where
  "js_or x d = (case x of None \<Rightarrow> d | Some v \<Rightarrow> if v = 0 then d else v)"

definition generateArrival :: "SensorConfig \<Rightarrow> nat \<Rightarrow> number \<times> nat" where
  "generateArrival sensor s =
     (let model = arrival_model sensor in
      case arrival_type model of
        ArrPoisson \<Rightarrow>
          (let (numArrivals, s') = poisson (js_or (lambda model) 1) s
           in (js_times numArrivals (J_mean_bits_per_slot sensor), s'))
      | ArrFixed \<Rightarrow> (Finite (js_or (value_bits model) (J_mean_bits_per_slot sensor)), s)
      | ArrUniform \<Rightarrow>
          (let mn = js_or (min_bits model) (J_mean_bits_per_slot sensor * 0.5);
               mx = js_or (max_bits model) (J_mean_bits_per_slot sensor * 1.5);
               (u, s') = uniform mn mx s
           in (Finite u, s')))"

definition generateHarvest :: "SensorConfig \<Rightarrow> nat \<Rightarrow> number \<times> nat" where
  "generateHarvest sensor s =
     (let model = harvest_model sensor in
      case harvest_type model of
        HarvBernoulli \<Rightarrow>
          (let (r, s') = random s
           in (Finite (if r < js_or (harvest_p model) 0.1
                       then js_or (value_J model) (harvest_mean_J_per_slot sensor) else 0), s'))
      | HarvConstant \<Rightarrow> (Finite (js_or (value_J model) (harvest_mean_J_per_slot sensor)), s)
      | HarvGaussian \<Rightarrow>
          (let mean = js_or (mean_J model) (harvest_mean_J_per_slot sensor);
               std = js_or (std_J model) (mean * 0.2);
               (g, s') = gaussian mean std s
           in (js_max 0 g, s')))"

text \<open>
  The floor \<open>Math.max(1e-10, g)\<close> stops a negative infinity but neither a positive one
  nor NaN.
\<close>

definition generateChannelGain :: "SensorConfig \<Rightarrow> nat \<Rightarrow> number \<times> nat" where
  "generateChannelGain sensor s =
     (let mean = channel_mean_gain sensor;
          variance = channel_variance sensor;
          std = sqrt variance;
          (g, s') = gaussian mean std s
      in (js_max (1 / 10 ^ 10) g, s'))"

text \<open>The three events of a sensor's slot, when all of them are finite.\<close>

definition finiteEvents :: "number \<Rightarrow> number \<Rightarrow> number \<Rightarrow> (real \<times> real \<times> real) option" where
  "finiteEvents arrival harvest channelGain =
     (case arrival of
        Finite a \<Rightarrow>
          (case harvest of
             Finite h \<Rightarrow> (case channelGain of Finite g \<Rightarrow> Some (a, h, g) | _ \<Rightarrow> None)
           | _ \<Rightarrow> None)
      | _ \<Rightarrow> None)"

text \<open>Sub-problem 1: the scheduling bit, 0 (local) or 1 (offload).\<close>

definition taskSchedulingDecision :: "SensorState \<Rightarrow> nat" where
  "taskSchedulingDecision state = (if H_o state \<ge> H_l state then 0 else 1)"

text \<open>
  Sub-problem 2: the local CPU frequency. \<open>Math.pow(x, 1/3)\<close> and \<open>Math.pow(x, 1/2)\<close>
  are \<open>powr\<close>, for \<open>x \<ge> 0\<close>.
\<close>

definition localCPUFrequencyAllocation ::
  "TSRAAlgorithm \<Rightarrow> SensorConfig \<Rightarrow> SensorState \<Rightarrow> real" where
  "localCPUFrequencyAllocation A sensor state =
     (let delta = delta_cycles_per_bit sensor;
          th = theta (globalParams A);
          hl = H_l state;
          b = B_u state;
          f_max = f_max_Hz sensor;
          batteryThreshold = (b / (th * tau A)) powr (1 / 3);
          queueConstraint = (hl * delta) / tau A;
          lyapunovFreq = (hl / (3 * alg_V A * th * delta)) powr (1 / 2)
      in if batteryThreshold \<le> min f_max queueConstraint
         then (if lyapunovFreq \<le> batteryThreshold
               then min f_max (max 0 lyapunovFreq)
               else min f_max (min queueConstraint lyapunovFreq))
         else min f_max queueConstraint)"

text \<open>Sub-problem 3: the transmit power.\<close>

definition transmissionPowerAllocation ::
  "TSRAAlgorithm \<Rightarrow> SensorConfig \<Rightarrow> SensorState \<Rightarrow> real \<Rightarrow> real" where
  "transmissionPowerAllocation A sensor state channelGain =
     (let ho = H_o state;
          hk = H_k state;
          sigma2 = noise_power_W (globalParams A);
          p_max = p_max_W sensor;
          b = bandwidth A
      in if ho \<le> hk then 0
         else (let numerator = (ho - hk) * b;
                   denominator = alg_V A * ln 2;
                   waterLevel = numerator / denominator - sigma2 / channelGain;
                   maxRateConstraint = (2 powr (ho / (b * tau A)) - 1) * sigma2 / channelGain
               in max 0 (min p_max (min waterLevel maxRateConstraint))))"

definition calculateTransmissionRate :: "TSRAAlgorithm \<Rightarrow> real \<Rightarrow> real \<Rightarrow> real" where
  "calculateTransmissionRate A pw channelGain =
     (let snr = (pw * channelGain) / noise_power_W (globalParams A)
      in bandwidth A * log 2 (1 + snr) * tau A)"

definition calculateLocalEnergy :: "TSRAAlgorithm \<Rightarrow> real \<Rightarrow> real" where
  "calculateLocalEnergy A frequency = theta (globalParams A) * frequency ^ 3 * tau A"

definition calculateTransmissionEnergy :: "TSRAAlgorithm \<Rightarrow> real \<Rightarrow> real" where
  "calculateTransmissionEnergy A pw = pw * tau A"

text \<open>
  Sub-problem 4: the edge allocation, a \<open>Map\<close> from sensor id to fraction. The loops run
  over the indices of \<open>sensors\<close>; \<open>executeSlot\<close> below raises before this is reached with
  fewer states than sensors, so the pairs of \<open>zip\<close> are the pairs the loop reads.
\<close>

definition edgeServerAllocation ::
  "SensorConfig list \<Rightarrow> SensorState list \<Rightarrow> (string \<rightharpoonup> real)" where
  "edgeServerAllocation sensors states =
     (let weightedBacklogs =
            map (\<lambda>(sensor, state). (sensor_id sensor, H_k state * priority_weight sensor))
              (zip sensors states);
          totalWeight = sum_list (map snd weightedBacklogs)
      in fold (\<lambda>(i, weight) allocations.
                 allocations(i \<mapsto> min 1 (if totalWeight > 0 then weight / totalWeight
                                          else 1 / real (length sensors))))
           weightedBacklogs Map.empty)"

text \<open>\<open>edgeAllocations.get(id) || 0\<close>.\<close>

definition getAllocation :: "(string \<rightharpoonup> real) \<Rightarrow> string \<Rightarrow> real" where
  "getAllocation edgeAllocations i = (case edgeAllocations i of None \<Rightarrow> 0 | Some x \<Rightarrow> x)"

text \<open>
  The body of the loop of \<open>executeSlot\<close>, for one sensor and its state. The three events
  are drawn first; the arithmetic that follows is modelled for finite events.
\<close>

definition tsraSensor ::
  "TSRAAlgorithm \<Rightarrow> EdgeServerConfig \<Rightarrow> (string \<rightharpoonup> real) \<Rightarrow> SensorConfig \<Rightarrow> SensorState
     \<Rightarrow> nat \<Rightarrow> ((SlotDecision \<times> SensorState \<times> SensorSlotResult) \<times> nat) outcome" where
  "tsraSensor A edgeServer edgeAllocations sensor state s =
     (let (arrivalDrawn, s1) = generateArrival sensor s;
          (harvestDrawn, s2) = generateHarvest sensor s1;
          (channelGainDrawn, s3) = generateChannelGain sensor s2
      in case finiteEvents arrivalDrawn harvestDrawn channelGainDrawn of
        None \<Rightarrow> NonFinite
      | Some (arrival, harvest, channelGain) \<Rightarrow>
          (let kap = taskSchedulingDecision state;
               fu = localCPUFrequencyAllocation A sensor state;
               pu = transmissionPowerAllocation A sensor state channelGain;
               xi = getAllocation edgeAllocations (sensor_id sensor);
               delta = delta_cycles_per_bit sensor;
               C_l = (fu * tau A) / delta;
               C_o = calculateTransmissionRate A pu channelGain;
               C_k = (xi * f_k_Hz edgeServer * tau A) / delta;
               localEnergy = calculateLocalEnergy A fu;
               txEnergy = calculateTransmissionEnergy A pu;
               new_H_l = max 0 (H_l state - C_l) + (1 - real kap) * arrival;
               new_H_o = max 0 (H_o state - C_o) + real kap * arrival;
               new_H_k = max 0 (H_k state - C_k) + C_o;
               new_B_u = max 0 (B_u state - localEnergy) + harvest;
               al = (if offload_mode sensor = Fractional
                     then (if arrival > 0 then (real kap * arrival) / arrival else 0)
                     else real kap)
           in Returned
               ((\<lparr>dec_kappa = kap, dec_alpha = al, dec_f_u = fu, dec_p_u = pu, dec_xi_u = xi\<rparr>,
                 \<lparr>H_l = new_H_l, H_o = new_H_o, H_k = new_H_k, B_u = new_B_u\<rparr>,
                 \<lparr>res_id = sensor_id sensor, res_H_l = new_H_l, res_H_o = new_H_o,
                  res_H_k = new_H_k, res_alpha = al, local_energy_J = localEnergy,
                  tx_energy_J = txEnergy, p_tx_W = pu, f_cpu_Hz = fu, arrival_bits = arrival,
                  harvest_J = harvest, res_battery_J = new_B_u\<rparr>), s3)))"

text \<open>The loop of \<open>executeSlot\<close> over the sensors and their states.\<close>

fun tsraLoop ::
  "TSRAAlgorithm \<Rightarrow> EdgeServerConfig \<Rightarrow> (string \<rightharpoonup> real) \<Rightarrow> (SensorConfig \<times> SensorState) list
     \<Rightarrow> nat \<Rightarrow> ((SlotDecision \<times> SensorState \<times> SensorSlotResult) list \<times> nat) outcome" where
  "tsraLoop A edgeServer edgeAllocations [] s = Returned ([], s)"
| "tsraLoop A edgeServer edgeAllocations ((sensor, state) # rest) s =
     (case tsraSensor A edgeServer edgeAllocations sensor state s of
        Returned (row, s1) \<Rightarrow>
          (case tsraLoop A edgeServer edgeAllocations rest s1 of
             Returned (rows, s2) \<Rightarrow> Returned (row # rows, s2)
           | TypeError \<Rightarrow> TypeError
           | NonFinite \<Rightarrow> NonFinite)
      | TypeError \<Rightarrow> TypeError
      | NonFinite \<Rightarrow> NonFinite)"

record SlotOutput =
  decisions :: "SlotDecision list"
  newStates :: "SensorState list"
  sensorResults :: "SensorSlotResult list"
  edgeResult :: EdgeSlotResult

definition edgeResultOf ::
  "real \<Rightarrow> EdgeServerConfig \<Rightarrow> (string \<rightharpoonup> real) \<Rightarrow> SensorConfig list \<Rightarrow> EdgeSlotResult" where
  "edgeResultOf t edgeServer edgeAllocations sensors =
     \<lparr>ES_allocations =
        map (\<lambda>s. \<lparr>es_sensor_id = sensor_id s,
                  es_xi = getAllocation edgeAllocations (sensor_id s),
                  processed_bits = getAllocation edgeAllocations (sensor_id s) * f_k_Hz edgeServer * t
                                     / delta_cycles_per_bit s\<rparr>) sensors\<rparr>"

text \<open>
  \<open>executeSlot\<close>. Reading a field of \<open>states[i]\<close> with fewer states than sensors, or of an
  undefined \<open>edgeServer\<close> with at least one sensor, raises a TypeError. With no sensor
  the edge server is never read.
\<close>

definition executeSlot ::
  "TSRAAlgorithm \<Rightarrow> SensorConfig list \<Rightarrow> SensorState list \<Rightarrow> EdgeServerConfig option \<Rightarrow> nat
     \<Rightarrow> (SlotOutput \<times> nat) outcome" where
  "executeSlot A sensors states edgeServer s =
     (if length states < length sensors then TypeError
      else case edgeServer of
        None \<Rightarrow>
          (if sensors = []
           then Returned (\<lparr>decisions = [], newStates = [], sensorResults = [],
                           edgeResult = \<lparr>ES_allocations = []\<rparr>\<rparr>, s)
           else TypeError)
      | Some e \<Rightarrow>
          (let edgeAllocations = edgeServerAllocation sensors states
           in case tsraLoop A e edgeAllocations (zip sensors states) s of
                Returned (rows, s') \<Rightarrow>
                  Returned (\<lparr>decisions = map fst rows,
                             newStates = map (fst \<circ> snd) rows,
                             sensorResults = map (snd \<circ> snd) rows,
                             edgeResult = edgeResultOf (tau A) e edgeAllocations sensors\<rparr>, s')
              | TypeError \<Rightarrow> TypeError
              | NonFinite \<Rightarrow> NonFinite))"

definition initializeSensorStates :: "SensorConfig list \<Rightarrow> SensorState list" where
  "initializeSensorStates ss =
     map (\<lambda>sensor. \<lparr>H_l = initial_queue_bits sensor / 2, H_o = initial_queue_bits sensor / 2,
                    H_k = 0, B_u = battery_J sensor\<rparr>) ss"

section \<open>The genetic optimizer (optimizer.ts)\<close>

record Individual =
  genes :: "real list"
  fitness :: real

record OptimizationResult =
  best :: Individual
  res_generations :: nat
  evaluations :: nat
  converged :: bool

text \<open>
  The immutable fields of a \<open>GeneticOptimizer\<close>; its generator's state is passed
  explicitly. \<open>Math.floor(populationSize * 0.1)\<close> is \<open>populationSize div 10\<close>.
\<close>

record GeneticOptimizer =
  populationSize :: nat
  generations :: nat
  mutationProb :: real
  eliteCount :: nat
  tournamentSize :: nat

definition newGeneticOptimizer :: "nat \<Rightarrow> nat \<Rightarrow> real \<Rightarrow> GeneticOptimizer" where
  "newGeneticOptimizer popSize gens mutProb =
     \<lparr>populationSize = popSize, generations = gens, mutationProb = mutProb,
      eliteCount = max 2 (popSize div 10), tournamentSize = 3\<rparr>"

text \<open>
  A new individual is created with \<open>fitness: Infinity\<close>, which \<open>evaluatePopulation\<close>
  overwrites before anything reads it: until then an individual is its list of genes.
  The fitness function reads only the genes of the individual it is given.
\<close>

fun initGenes :: "(real \<times> real) list \<Rightarrow> nat \<Rightarrow> real list \<times> nat" where
  "initGenes [] s = ([], s)"
| "initGenes ((mn, mx) # bs) s =
     (let (g, s1) = uniform mn mx s;
          (gs, s2) = initGenes bs s1
      in (g # gs, s2))"

fun initializePopulation :: "nat \<Rightarrow> (real \<times> real) list \<Rightarrow> nat \<Rightarrow> real list list \<times> nat" where
  "initializePopulation 0 bs s = ([], s)"
| "initializePopulation (Suc n) bs s =
     (let (g, s1) = initGenes bs s;
          (p, s2) = initializePopulation n bs s1
      in (g # p, s2))"

text \<open>\<open>tournamentSelect\<close>: \<open>n\<close> draws are left, \<open>b\<close> is the best so far (\<open>null\<close> at first).\<close>

fun tournamentLoop ::
  "nat \<Rightarrow> Individual list \<Rightarrow> Individual option \<Rightarrow> nat \<Rightarrow> Individual option \<times> nat" where
  "tournamentLoop 0 pop b s = (b, s)"
| "tournamentLoop (Suc n) pop b s =
     (let (r, s1) = random s;
          idx = nat \<lfloor>r * real (length pop)\<rfloor>;
          candidate = pop ! idx;
          b' = (case b of None \<Rightarrow> Some candidate
                | Some x \<Rightarrow> if fitness candidate < fitness x then Some candidate else Some x)
      in tournamentLoop n pop b' s1)"

definition tournamentSelect :: "GeneticOptimizer \<Rightarrow> Individual list \<Rightarrow> nat \<Rightarrow> Individual \<times> nat" where
  "tournamentSelect G pop s =
     (let (b, s') = tournamentLoop (tournamentSize G) pop None s in (the b, s'))"

fun crossover :: "real list \<Rightarrow> real list \<Rightarrow> nat \<Rightarrow> real list \<times> nat" where
  "crossover [] g2 s = ([], s)"
| "crossover (a # g1) g2 s =
     (let (r, s1) = random s;
          g = (if r < 0.5 then a else hd g2);
          (gs, s2) = crossover g1 (tl g2) s1
      in (g # gs, s2))"

text \<open>
  \<open>mutate\<close>. The mutated gene is \<open>Math.max(min, Math.min(max, gene + mutation))\<close>: an
  infinite mutation is clamped, and a NaN one (when \<open>max = min\<close>) makes the gene NaN.
\<close>

fun mutate ::
  "GeneticOptimizer \<Rightarrow> real list \<Rightarrow> (real \<times> real) list \<Rightarrow> nat \<Rightarrow> (real list \<times> nat) outcome" where
  "mutate G [] bs s = Returned ([], s)"
| "mutate G (g # gs) bs s =
     (let (r, s1) = random s
      in if r < mutationProb G
         then (let (mn, mx) = hd bs;
                   range = mx - mn;
                   (mutation, s2) = gaussian 0 (range * 0.1) s1
               in case js_max mn (js_min mx (js_plus g mutation)) of
                    Finite g' \<Rightarrow>
                      map_outcome (\<lambda>(rest, s3). (g' # rest, s3)) (mutate G gs (tl bs) s2)
                  | _ \<Rightarrow> NonFinite)
         else map_outcome (\<lambda>(rest, s3). (g # rest, s3)) (mutate G gs (tl bs) s1))"

definition evaluatePopulation ::
  "real list list \<Rightarrow> (real list \<Rightarrow> real) \<Rightarrow> Individual list \<times> nat" where
  "evaluatePopulation pop fitnessFunc =
     (let evaluated = map (\<lambda>g. \<lparr>genes = g, fitness = fitnessFunc g\<rparr>) pop
      in (evaluated, length (filter (\<lambda>i. fitness i > 10 ^ 5) evaluated)))"

text \<open>The \<open>while\<close> loop that fills the new population: \<open>n\<close> children are still missing.\<close>

fun breed ::
  "GeneticOptimizer \<Rightarrow> Individual list \<Rightarrow> (real \<times> real) list \<Rightarrow> nat \<Rightarrow> nat
     \<Rightarrow> (real list list \<times> nat) outcome" where
  "breed G pop bs 0 s = Returned ([], s)"
| "breed G pop bs (Suc n) s =
     (let (parent1, s1) = tournamentSelect G pop s;
          (parent2, s2) = tournamentSelect G pop s1;
          (child, s3) = crossover (genes parent1) (genes parent2) s2
      in case mutate G child bs s3 of
           Returned (child', s4) \<Rightarrow>
             map_outcome (\<lambda>(children, s5). (child' # children, s5)) (breed G pop bs n s4)
         | TypeError \<Rightarrow> TypeError
         | NonFinite \<Rightarrow> NonFinite)"

text \<open>
  One call of the generation callback: generation, best fitness, average fitness and the
  number of infeasible individuals.
\<close>

type_synonym GenerationCall = "nat \<times> real \<times> real \<times> nat"

text \<open>
  The generation loop of \<open>optimize\<close>, with \<open>n\<close> generations left and \<open>gen\<close> the current
  one. It returns the callback's calls in order and, unless an exception or a NaN gene
  ended the loop, the best individual ever, the stagnation count, the number of
  evaluations and the generator's state. Copying an elite reads \<open>population[i].genes\<close>,
  a TypeError when the population has fewer than \<open>eliteCount\<close> individuals.
\<close>

fun optimizeLoop ::
  "GeneticOptimizer \<Rightarrow> (real list \<Rightarrow> real) \<Rightarrow> (real \<times> real) list \<Rightarrow> nat \<Rightarrow> nat
     \<Rightarrow> Individual list \<Rightarrow> nat \<Rightarrow> Individual \<Rightarrow> nat \<Rightarrow> nat \<Rightarrow> nat
     \<Rightarrow> GenerationCall list \<times> (Individual \<times> nat \<times> nat \<times> nat) outcome" where
  "optimizeLoop G fitnessFunc bs 0 gen pop infeasibleCount bestEver stagnationCount totalEvaluations s =
     ([], Returned (bestEver, stagnationCount, totalEvaluations, s))"
| "optimizeLoop G fitnessFunc bs (Suc n) gen pop infeasibleCount bestEver stagnationCount totalEvaluations s =
     (let avgFitness = sum_list (map fitness pop) / real (length pop);
          call = (gen, fitness (hd pop), avgFitness, infeasibleCount);
          (bestEver1, stagnation1) =
             (if fitness (hd pop) < fitness bestEver then (hd pop, 0)
              else (bestEver, stagnationCount + 1))
      in if stagnation1 \<ge> (generations G + 1) div 2
         then ([call], Returned (bestEver1, stagnation1, totalEvaluations, s))
         else if length pop < eliteCount G then ([call], TypeError)
         else
           (let elites = map genes (take (eliteCount G) pop)
            in case breed G pop bs (populationSize G - eliteCount G) s of
                 Returned (children, s1) \<Rightarrow>
                   (let (evaluated, infeasible') = evaluatePopulation (elites @ children) fitnessFunc;
                        sorted = sort_key fitness evaluated;
                        bestEver2 = (if fitness (hd sorted) < fitness bestEver1 then hd sorted
                                     else bestEver1);
                        (calls, r) = optimizeLoop G fitnessFunc bs n (gen + 1) sorted infeasible'
                                       bestEver2 stagnation1 (totalEvaluations + populationSize G) s1
                    in (call # calls, r))
               | TypeError \<Rightarrow> ([call], TypeError)
               | NonFinite \<Rightarrow> ([call], NonFinite)))"

text \<open>
  \<open>optimize\<close>. Destructuring \<open>bounds[j]\<close> beyond the end of \<open>bounds\<close> and reading
  \<open>population[0].genes\<close> of an empty population are TypeErrors.
\<close>

definition optimize ::
  "GeneticOptimizer \<Rightarrow> (real list \<Rightarrow> real) \<Rightarrow> nat \<Rightarrow> (real \<times> real) list \<Rightarrow> nat
     \<Rightarrow> GenerationCall list \<times> (OptimizationResult \<times> nat) outcome" where
  "optimize G fitnessFunc geneCount bs s =
     (if populationSize G > 0 \<and> length bs < geneCount then ([], TypeError)
      else
        (let (pop0, s1) = initializePopulation (populationSize G) (take geneCount bs) s;
             (evaluated, infeasibleCount) = evaluatePopulation pop0 fitnessFunc;
             sorted = sort_key fitness evaluated
         in if sorted = [] then ([], TypeError)
            else
              (case optimizeLoop G fitnessFunc bs (generations G) 0 sorted infeasibleCount
                      (hd sorted) 0 (populationSize G) s1 of
                 (calls, Returned (bestEver, stagnationCount, totalEvaluations, s2)) \<Rightarrow>
                   (calls,
                    Returned (\<lparr>best = bestEver, res_generations = generations G,
                               evaluations = totalEvaluations,
                               converged = (stagnationCount \<ge> (generations G + 1) div 2)\<rparr>, s2))
               | (calls, TypeError) \<Rightarrow> (calls, TypeError)
               | (calls, NonFinite) \<Rightarrow> (calls, NonFinite))))"

section \<open>The predictive policy (p-tsra.ts)\<close>

record PredictionHorizon =
  arrivals :: "real list"
  harvests :: "real list"
  channelGains :: "real list"

text \<open>
  The immutable fields of a \<open>PTSRAAlgorithm\<close> (those of the \<open>TSRAAlgorithm\<close> it extends
  are in \<open>tsra\<close>), and the fields that change: the generator inherited from
  \<open>TSRAAlgorithm\<close>, the generator of the optimizer, and the three history maps.
\<close>

record PTSRAAlgorithm =
  tsra :: TSRAAlgorithm
  horizon :: nat
  ga :: GeneticOptimizer
  optimizerConfig :: OptimizerConfig
  ewmaAlpha :: real

record PTSRAState =
  rng :: nat
  opt_rng :: nat
  arrivalHistory :: "string \<Rightarrow> real list"
  harvestHistory :: "string \<Rightarrow> real list"
  channelHistory :: "string \<Rightarrow> real list"

definition newPTSRAAlgorithm ::
  "real \<Rightarrow> real \<Rightarrow> real \<Rightarrow> GlobalParams \<Rightarrow> int \<Rightarrow> nat \<Rightarrow> OptimizerConfig
     \<Rightarrow> PTSRAAlgorithm \<times> PTSRAState" where
  "newPTSRAAlgorithm v t b gp sd h oc =
     (\<lparr>tsra = \<lparr>alg_V = v, tau = t, bandwidth = b, globalParams = gp\<rparr>,
       horizon = h,
       ga = newGeneticOptimizer (cfg_population oc) (cfg_generations oc) (mutation_prob oc),
       optimizerConfig = oc,
       ewmaAlpha = 0.3\<rparr>,
      \<lparr>rng = SeededRandom sd, opt_rng = SeededRandom sd,
       arrivalHistory = (\<lambda>_. []), harvestHistory = (\<lambda>_. []), channelHistory = (\<lambda>_. [])\<rparr>)"

text \<open>\<open>push\<close>, then \<open>shift\<close> when more than 50 values are held.\<close>

definition pushWindow :: "real list \<Rightarrow> real \<Rightarrow> real list" where
  "pushWindow xs x = (let ys = xs @ [x] in if length ys > 50 then tl ys else ys)"

definition updateHistory :: "string \<Rightarrow> real \<Rightarrow> real \<Rightarrow> real \<Rightarrow> PTSRAState \<Rightarrow> PTSRAState" where
  "updateHistory sensorId arrival harvest channelGain st =
     st\<lparr>arrivalHistory := (arrivalHistory st)(sensorId := pushWindow (arrivalHistory st sensorId) arrival),
        harvestHistory := (harvestHistory st)(sensorId := pushWindow (harvestHistory st sensorId) harvest),
        channelHistory := (channelHistory st)(sensorId := pushWindow (channelHistory st sensorId) channelGain)\<rparr>"

definition calculateEWMA :: "PTSRAAlgorithm \<Rightarrow> real list \<Rightarrow> real \<Rightarrow> real" where
  "calculateEWMA P history defaultValue =
     (if history = [] then defaultValue
      else foldl (\<lambda>ewma x. ewmaAlpha P * x + (1 - ewmaAlpha P) * ewma) (hd history) (tl history))"

text \<open>
  \<open>predictFuture\<close> perturbs the averages with \<open>Math.random()\<close>, which is not the seeded
  generator: \<open>noise h k\<close> stands for the value of the \<open>k\<close>-th of the three calls made for
  horizon step \<open>h\<close>.
\<close>

definition predictFuture ::
  "PTSRAAlgorithm \<Rightarrow> PTSRAState \<Rightarrow> (nat \<Rightarrow> nat \<Rightarrow> real) \<Rightarrow> SensorConfig \<Rightarrow> nat \<Rightarrow> PredictionHorizon" where
  "predictFuture P st noise sensor hor =
     (let ewmaArrival = calculateEWMA P (arrivalHistory st (sensor_id sensor)) (J_mean_bits_per_slot sensor);
          ewmaHarvest = calculateEWMA P (harvestHistory st (sensor_id sensor)) (harvest_mean_J_per_slot sensor);
          ewmaChannel = calculateEWMA P (channelHistory st (sensor_id sensor)) (channel_mean_gain sensor)
      in \<lparr>arrivals = map (\<lambda>h. ewmaArrival * (0.9 + noise h 0 * 0.2)) [0..<hor],
          harvests = map (\<lambda>h. ewmaHarvest * (0.8 + noise h 1 * 0.4)) [0..<hor],
          channelGains = map (\<lambda>h. ewmaChannel * (0.85 + noise h 2 * 0.3)) [0..<hor]\<rparr>)"

text \<open>
  One pass of the rollout loop of \<open>fitnessFunction\<close>, for horizon step \<open>h\<close>, on the
  simulated state and the running cost.
\<close>

definition fitnessStep ::
  "SensorConfig \<Rightarrow> PredictionHorizon \<Rightarrow> real \<Rightarrow> real \<Rightarrow> real \<Rightarrow> GlobalParams \<Rightarrow> real \<Rightarrow> real
     \<Rightarrow> real \<Rightarrow> nat \<Rightarrow> SensorState \<times> real \<Rightarrow> SensorState \<times> real" where
  "fitnessStep sensor predictions v t bw gp al fu pu h acc =
     (let simState = fst acc;
          totalCost = snd acc;
          arrival = arrivals predictions ! h;
          harvest = harvests predictions ! h;
          channelGain = channelGains predictions ! h;
          delta = delta_cycles_per_bit sensor;
          C_l = (fu * t) / delta;
          snr = (pu * channelGain) / noise_power_W gp;
          C_o = bw * log 2 (1 + snr) * t;
          localEnergy = theta gp * fu ^ 3 * t;
          txEnergy = pu * t;
          totalEnergy = localEnergy + txEnergy;
          effectiveEnergy = max 0 (localEnergy - harvest);
          localArrival = (1 - al) * arrival;
          offloadArrival = al * arrival;
          simState' = simState\<lparr>H_l := max 0 (H_l simState - C_l) + localArrival,
                               H_o := max 0 (H_o simState - C_o) + offloadArrival,
                               B_u := max 0 (B_u simState - effectiveEnergy) + harvest\<rparr>;
          drift = H_l simState' * (localArrival - C_l) + H_o simState' * (offloadArrival - C_o);
          slotCost = v * totalEnergy + drift;
          totalCost1 = (if B_u simState' < 0 then totalCost + 10 ^ 6 else totalCost);
          totalCost2 = (if fu > f_max_Hz sensor then totalCost1 + 10 ^ 6 else totalCost1);
          totalCost3 = (if pu > p_max_W sensor then totalCost2 + 10 ^ 6 else totalCost2);
          discount = 0.95 ^ h
      in (simState', totalCost3 + discount * slotCost))"

definition fitnessFunction ::
  "PTSRAAlgorithm \<Rightarrow> real list \<Rightarrow> SensorConfig \<Rightarrow> SensorState \<Rightarrow> PredictionHorizon
     \<Rightarrow> real \<Rightarrow> real \<Rightarrow> real \<Rightarrow> GlobalParams \<Rightarrow> real" where
  "fitnessFunction P individual sensor state predictions v t bw gp =
     (let al = individual ! 0;
          fNorm = individual ! 1;
          pNorm = individual ! 2;
          fu = fNorm * f_max_Hz sensor;
          pu = pNorm * p_max_W sensor
      in snd (fold (fitnessStep sensor predictions v t bw gp al fu pu)
                [0..<min (horizon P) (length (arrivals predictions))] (state, 0)))"

text \<open>
  \<open>optimizeAlpha\<close>. \<open>elapsed g\<close> stands for \<open>Date.now() - startTime\<close> at the callback of
  generation \<open>g\<close>. The entries are returned in the order the callback built them, with
  the result when the optimizer returned one.
\<close>

definition optimizeAlpha ::
  "PTSRAAlgorithm \<Rightarrow> (nat \<Rightarrow> real) \<Rightarrow> SensorConfig \<Rightarrow> SensorState \<Rightarrow> PredictionHorizon \<Rightarrow> nat
     \<Rightarrow> OptimizerLogEntry list \<times> ((real \<times> real \<times> real) \<times> nat) outcome" where
  "optimizeAlpha P elapsed sensor state predictions s =
     (let bs = [(0, 1), (0.1, 1), (0, 1)];
          (calls, r) = optimize (ga P)
                         (\<lambda>individual. fitnessFunction P individual sensor state predictions
                            (alg_V (tsra P)) (tau (tsra P)) (bandwidth (tsra P)) (globalParams (tsra P)))
                         3 bs s;
          logs = map (\<lambda>(gen, bestFitness, avgFitness, infeasibleCount).
                        \<lparr>log_slot = 0, generation = gen, log_best_fitness = bestFitness,
                         avg_fitness = avgFitness, infeasible_count = infeasibleCount,
                         elapsed_ms = elapsed gen\<rparr>) calls
      in case r of
           Returned (result, s') \<Rightarrow>
             (logs, Returned ((genes (best result) ! 0,
                               genes (best result) ! 1 * f_max_Hz sensor,
                               genes (best result) ! 2 * p_max_W sensor), s'))
         | TypeError \<Rightarrow> (logs, TypeError)
         | NonFinite \<Rightarrow> (logs, NonFinite))"

text \<open>
  What lies outside the program: \<open>mathRandom sl i h k\<close> is the value of \<open>Math.random()\<close>
  and \<open>clock sl i g\<close> the elapsed time read in slot \<open>sl\<close> for the sensor at index \<open>i\<close>.
\<close>

record Env =
  mathRandom :: "nat \<Rightarrow> nat \<Rightarrow> nat \<Rightarrow> nat \<Rightarrow> real"
  clock :: "nat \<Rightarrow> nat \<Rightarrow> nat \<Rightarrow> real"

text \<open>
  The body of the loop of \<open>executeSlotPredictive\<close> for the sensor at index \<open>i\<close>. It
  returns the log entries passed to \<open>logCallback\<close> (with their slot set) and, when the
  events are finite and the optimizer returned, the decision, the new state, the result
  and the object's new state.
\<close>

definition ptsraSensor ::
  "PTSRAAlgorithm \<Rightarrow> Env \<Rightarrow> EdgeServerConfig \<Rightarrow> (string \<rightharpoonup> real) \<Rightarrow> nat \<Rightarrow> nat
     \<Rightarrow> SensorConfig \<Rightarrow> SensorState \<Rightarrow> PTSRAState
     \<Rightarrow> OptimizerLogEntry list
        \<times> ((SlotDecision \<times> SensorState \<times> SensorSlotResult) \<times> PTSRAState) outcome" where
  "ptsraSensor P env edgeServer edgeAllocations sl i sensor state st =
     (let (arrivalDrawn, s1) = generateArrival sensor (rng st);
          (harvestDrawn, s2) = generateHarvest sensor s1;
          (channelGainDrawn, s3) = generateChannelGain sensor s2
      in case finiteEvents arrivalDrawn harvestDrawn channelGainDrawn of
        None \<Rightarrow> ([], NonFinite)
      | Some (arrival, harvest, channelGain) \<Rightarrow>
          (let st1 = updateHistory (sensor_id sensor) arrival harvest channelGain (st\<lparr>rng := s3\<rparr>);
               predictions = predictFuture P st1 (mathRandom env sl i) sensor (horizon P);
               (logs, decided) =
                  (if horizon P > 0
                   then (case optimizeAlpha P (clock env sl i) sensor state predictions (opt_rng st1) of
                           (entries, r) \<Rightarrow> (map (\<lambda>e. e\<lparr>log_slot := sl\<rparr>) entries, r))
                   else (let kap = taskSchedulingDecision state
                         in ([], Returned ((real kap,
                                            localCPUFrequencyAllocation (tsra P) sensor state,
                                            transmissionPowerAllocation (tsra P) sensor state channelGain),
                                           opt_rng st1))))
           in case decided of
                TypeError \<Rightarrow> (logs, TypeError)
              | NonFinite \<Rightarrow> (logs, NonFinite)
              | Returned ((al, fu, pu), os) \<Rightarrow>
                  (let xi = getAllocation edgeAllocations (sensor_id sensor);
                       delta = delta_cycles_per_bit sensor;
                       t = tau (tsra P);
                       bw = bandwidth (tsra P);
                       gp = globalParams (tsra P);
                       C_l = (fu * t) / delta;
                       snr = (pu * channelGain) / noise_power_W gp;
                       C_o = bw * log 2 (1 + snr) * t;
                       C_k = (xi * f_k_Hz edgeServer * t) / delta;
                       localEnergy = theta gp * fu ^ 3 * t;
                       txEnergy = pu * t;
                       localArrival = (1 - al) * arrival;
                       offloadArrival = al * arrival;
                       new_H_l = max 0 (H_l state - C_l) + localArrival;
                       new_H_o = max 0 (H_o state - C_o) + offloadArrival;
                       new_H_k = max 0 (H_k state - C_k) + C_o;
                       new_B_u = max 0 (B_u state - localEnergy) + harvest;
                       kap = (if al \<ge> 0.5 then 1 else 0)
                   in (logs,
                       Returned
                         ((\<lparr>dec_kappa = kap, dec_alpha = al, dec_f_u = fu, dec_p_u = pu, dec_xi_u = xi\<rparr>,
                           \<lparr>H_l = new_H_l, H_o = new_H_o, H_k = new_H_k, B_u = new_B_u\<rparr>,
                           \<lparr>res_id = sensor_id sensor, res_H_l = new_H_l, res_H_o = new_H_o,
                            res_H_k = new_H_k, res_alpha = al, local_energy_J = localEnergy,
                            tx_energy_J = txEnergy, p_tx_W = pu, f_cpu_Hz = fu,
                            arrival_bits = arrival, harvest_J = harvest, res_battery_J = new_B_u\<rparr>),
                          st1\<lparr>opt_rng := os\<rparr>)))))"

text \<open>
  The loop of \<open>executeSlotPredictive\<close> over the sensors from index \<open>i\<close> on; \<open>body\<close> is
  the loop's body. An exception ends the loop and keeps the entries logged so far.
\<close>

definition consRow ::
  "OptimizerLogEntry list \<Rightarrow> 'r \<Rightarrow> OptimizerLogEntry list \<times> ('r list \<times> 's) outcome
     \<Rightarrow> OptimizerLogEntry list \<times> ('r list \<times> 's) outcome" where
  "consRow logs row r =
     (case r of
        (logs', Returned (rows, st)) \<Rightarrow> (logs @ logs', Returned (row # rows, st))
      | (logs', TypeError) \<Rightarrow> (logs @ logs', TypeError)
      | (logs', NonFinite) \<Rightarrow> (logs @ logs', NonFinite))"

fun ptsraLoop ::
  "(nat \<Rightarrow> 'x \<Rightarrow> 's \<Rightarrow> OptimizerLogEntry list \<times> ('r \<times> 's) outcome) \<Rightarrow> nat \<Rightarrow> 'x list \<Rightarrow> 's
     \<Rightarrow> OptimizerLogEntry list \<times> ('r list \<times> 's) outcome" where
  "ptsraLoop body i [] st = ([], Returned ([], st))"
| "ptsraLoop body i (x # rest) st =
     (case body i x st of
        (logs, Returned (row, st1)) \<Rightarrow> consRow logs row (ptsraLoop body (i + 1) rest st1)
      | (logs, TypeError) \<Rightarrow> (logs, TypeError)
      | (logs, NonFinite) \<Rightarrow> (logs, NonFinite))"

record PredictiveOutput = SlotOutput +
  optimizerLogs :: "OptimizerLogEntry list"

text \<open>
  \<open>executeSlotPredictive\<close>: the entries passed to \<open>logCallback\<close>, and the output with the
  object's new state when the call returns (see \<open>executeSlot\<close>).
\<close>

definition executeSlotPredictive ::
  "PTSRAAlgorithm \<Rightarrow> Env \<Rightarrow> SensorConfig list \<Rightarrow> SensorState list \<Rightarrow> EdgeServerConfig option
     \<Rightarrow> nat \<Rightarrow> PTSRAState
     \<Rightarrow> OptimizerLogEntry list \<times> (PredictiveOutput \<times> PTSRAState) outcome" where
  "executeSlotPredictive P env sensors states edgeServer sl st =
     (if length states < length sensors then ([], TypeError)
      else case edgeServer of
        None \<Rightarrow>
          (if sensors = []
           then ([], Returned (\<lparr>decisions = [], newStates = [], sensorResults = [],
                                edgeResult = \<lparr>ES_allocations = []\<rparr>, optimizerLogs = []\<rparr>, st))
           else ([], TypeError))
      | Some e \<Rightarrow>
          (let edgeAllocations = edgeServerAllocation sensors states
           in case ptsraLoop (\<lambda>i (sensor, state). ptsraSensor P env e edgeAllocations sl i sensor state)
                     0 (zip sensors states) st of
                (logs, Returned (rows, st')) \<Rightarrow>
                  (logs,
                   Returned (\<lparr>decisions = map fst rows,
                              newStates = map (fst \<circ> snd) rows,
                              sensorResults = map (snd \<circ> snd) rows,
                              edgeResult = edgeResultOf (tau (tsra P)) e edgeAllocations sensors,
                              optimizerLogs = logs\<rparr>, st'))
              | (logs, TypeError) \<Rightarrow> (logs, TypeError)
              | (logs, NonFinite) \<Rightarrow> (logs, NonFinite)))"

section \<open>The simulation driver (simulator.ts)\<close>

definition calculateGlobalMetrics :: "SensorSlotResult list \<Rightarrow> EdgeSlotResult \<Rightarrow> GlobalMetrics" where
  "calculateGlobalMetrics results edgeRes =
     (let totalBacklog = sum_list (map (\<lambda>sensor. res_H_l sensor + res_H_o sensor + res_H_k sensor) results);
          totalEnergy = sum_list (map (\<lambda>sensor. local_energy_J sensor + tx_energy_J sensor) results);
          totalLatency =
            sum_list (map (\<lambda>sensor.
                let avgRate = (if arrival_bits sensor > 0 then arrival_bits sensor else 10 ^ 5)
                in (res_H_l sensor + res_H_o sensor + res_H_k sensor) / avgRate * 1000) results)
      in \<lparr>total_backlog_bits = totalBacklog,
          total_energy_J = totalEnergy,
          best_fitness = - totalEnergy - 0.01 * totalBacklog,
          avg_latency_ms = totalLatency / real (length results)\<rparr>)"

text \<open>
  The body of the slot loop of \<open>runSimulation\<close> for slot \<open>sl\<close>, on the simulation
  state, the baseline generator's state and sensor states, and the predictive object's
  state and sensor states. An exception raised in the slot is caught: the status becomes
  \<open>Error\<close>, what was pushed before stays, and the loop ends (\<open>Inl\<close>). When a number that
  is not finite enters the arithmetic of either policy the model's run ends there
  (\<open>None\<close>): the code goes on with that number.
\<close>

type_synonym LoopState = "SimulationState \<times> nat \<times> SensorState list \<times> PTSRAState \<times> SensorState list"

definition slotBody ::
  "ExperimentConfig \<Rightarrow> Env \<Rightarrow> TSRAAlgorithm \<Rightarrow> PTSRAAlgorithm \<Rightarrow> EdgeServerConfig option
     \<Rightarrow> nat \<Rightarrow> LoopState \<Rightarrow> (SimulationState + LoopState) option" where
  "slotBody config env A P edgeServer sl ls =
     (case ls of (state, tsraRng, tsraStates, pst, ptsraStates) \<Rightarrow>
      (let state1 = state\<lparr>current_slot := sl\<rparr>
      in case executeSlot A (cfg_sensors config) tsraStates edgeServer tsraRng of
           TypeError \<Rightarrow> Some (Inl (state1\<lparr>status := Error\<rparr>))
         | NonFinite \<Rightarrow> None
         | Returned (tsraResult, tsraRng') \<Rightarrow>
             (let tsraSlotResult =
                    \<lparr>res_slot = sl, sensor_results = sensorResults tsraResult,
                     edge_results = edgeResult tsraResult,
                     global_metrics = calculateGlobalMetrics (sensorResults tsraResult) (edgeResult tsraResult),
                     algorithm = TSRA\<rparr>;
                  state2 = state1\<lparr>tsra_results := tsra_results state1 @ [tsraSlotResult]\<rparr>
              in case executeSlotPredictive P env (cfg_sensors config) ptsraStates edgeServer sl pst of
                   (logs, TypeError) \<Rightarrow>
                     Some (Inl (state2\<lparr>optimizer_log := optimizer_log state2 @ logs, status := Error\<rparr>))
                 | (logs, NonFinite) \<Rightarrow> None
                 | (logs, Returned (ptsraResult, pst')) \<Rightarrow>
                     (let state3 = state2\<lparr>optimizer_log := optimizer_log state2 @ logs\<rparr>;
                          ptsraSlotResult =
                            \<lparr>res_slot = sl, sensor_results = sensorResults ptsraResult,
                             edge_results = edgeResult ptsraResult,
                             global_metrics = calculateGlobalMetrics (sensorResults ptsraResult) (edgeResult ptsraResult),
                             algorithm = P_TSRA\<rparr>;
                          state4 = state3\<lparr>ptsra_results := ptsra_results state3 @ [ptsraSlotResult]\<rparr>
                      in Some (Inr (state4, tsraRng', newStates tsraResult, pst', newStates ptsraResult))))))"

text \<open>The slot loop, with \<open>n\<close> slots left and \<open>sl\<close> the current one.\<close>

fun slotLoop ::
  "(nat \<Rightarrow> LoopState \<Rightarrow> (SimulationState + LoopState) option) \<Rightarrow> nat \<Rightarrow> nat \<Rightarrow> LoopState
     \<Rightarrow> SimulationState option" where
  "slotLoop body 0 sl ls = Some ((fst ls)\<lparr>status := Completed\<rparr>)"
| "slotLoop body (Suc n) sl ls =
     (case body sl ls of
        None \<Rightarrow> None
      | Some (Inl final) \<Rightarrow> Some final
      | Some (Inr ls') \<Rightarrow> slotLoop body n (sl + 1) ls')"

text \<open>
  \<open>runSimulation\<close>, called without the two optional callbacks. \<open>runId\<close> stands for the
  value of \<open>crypto.randomUUID()\<close>. The result is the state the call returns, or \<open>None\<close>
  when a number that is not finite entered the arithmetic of a slot.
\<close>

definition runSimulation :: "ExperimentConfig \<Rightarrow> Env \<Rightarrow> string \<Rightarrow> SimulationState option" where
  "runSimulation config env runId =
     (let state = \<lparr>run_id = runId, status = Running, current_slot = 0,
                   total_slots = slots config, tsra_results = [], ptsra_results = [],
                   optimizer_log = []\<rparr>;
          A = \<lparr>alg_V = cfg_V config, tau = slot_duration_s config,
               bandwidth = bandwidth_Hz config, globalParams = global_params config\<rparr>;
          (P, pst) = newPTSRAAlgorithm (cfg_V config) (slot_duration_s config) (bandwidth_Hz config)
                       (global_params config) (cfg_seed config + 1) (prediction_horizon config)
                       (optimizer config);
          tsraStates = initializeSensorStates (cfg_sensors config);
          ptsraStates = initializeSensorStates (cfg_sensors config);
          edgeServer = (case edge_servers config of [] \<Rightarrow> None | e # _ \<Rightarrow> Some e)
      in slotLoop (slotBody config env A P edgeServer) (slots config) 0
           (state, SeededRandom (cfg_seed config), tsraStates, pst, ptsraStates))"

section \<open>Vocabulary of the properties\<close>

text \<open>
  The Mulberry32 recurrence as the specification words it: a 32-bit state, every
  operation truncated modulo \<open>2^32\<close>.
\<close>

definition mulberry32 :: "32 word \<Rightarrow> real \<times> 32 word" where
  "mulberry32 a =
     (let a' = a + 0x6d2b79f5;
          t = (a' XOR drop_bit 15 a') * (a' OR 1);
          t' = t XOR (t + (t XOR drop_bit 7 t) * (t OR 61))
      in (real (unat (t' XOR drop_bit 14 t')) / 2 ^ 32, a'))"

primrec mulberry32_seq :: "nat \<Rightarrow> 32 word \<Rightarrow> real list" where
  "mulberry32_seq 0 a = []"
| "mulberry32_seq (Suc n) a = fst (mulberry32 a) # mulberry32_seq n (snd (mulberry32 a))"

text \<open>
  Genes within their bounds, bounds that are intervals, and intervals that are not a
  single point.
\<close>

definition inBounds :: "(real \<times> real) list \<Rightarrow> real list \<Rightarrow> bool" where
  "inBounds bs g = list_all2 (\<lambda>x b. fst b \<le> x \<and> x \<le> snd b) g bs"

definition validBounds :: "(real \<times> real) list \<Rightarrow> bool" where
  "validBounds bs = list_all (\<lambda>b. fst b \<le> snd b) bs"

definition strictBounds :: "(real \<times> real) list \<Rightarrow> bool" where
  "strictBounds bs = list_all (\<lambda>b. fst b < snd b) bs"

text \<open>
  Two auxiliary functions for the proofs. \<open>drawEvents\<close> is the three draws that open
  the loop body of both policies, with the generator's state after them, when the three
  events are finite. \<open>commitRow\<close> is the arithmetic that closes the body: the
  derived quantities, the queue and battery update and the three records, as a function
  of the events, the reported \<open>kappa\<close> and \<open>alpha\<close>, the offload fraction \<open>a\<close> used
  in the update, and \<open>f_u\<close> and \<open>p_u\<close>. Lemmas \<open>tsraSensor_commit\<close> and
  \<open>ptsraSensor_commit\<close> show that the loop bodies are these.
\<close>

definition drawEvents :: "SensorConfig \<Rightarrow> nat \<Rightarrow> (real \<times> real \<times> real \<times> nat) option" where
  "drawEvents sensor s =
     (let (arrival, s1) = generateArrival sensor s;
          (harvest, s2) = generateHarvest sensor s1;
          (channelGain, s3) = generateChannelGain sensor s2
      in case finiteEvents arrival harvest channelGain of
           None \<Rightarrow> None
         | Some (a, h, g) \<Rightarrow> Some (a, h, g, s3))"

definition commitRow ::
  "TSRAAlgorithm \<Rightarrow> EdgeServerConfig \<Rightarrow> (string \<rightharpoonup> real) \<Rightarrow> SensorConfig \<Rightarrow> SensorState
     \<Rightarrow> real \<times> real \<times> real \<times> nat \<Rightarrow> nat \<Rightarrow> real \<Rightarrow> real \<Rightarrow> real \<Rightarrow> real
     \<Rightarrow> SlotDecision \<times> SensorState \<times> SensorSlotResult" where
  "commitRow A e edgeAllocations sensor state ev kap alphaOut a fu pu =
     (let arrival = fst ev;
          harvest = fst (snd ev);
          channelGain = fst (snd (snd ev));
          xi = getAllocation edgeAllocations (sensor_id sensor);
          C_l = (fu * tau A) / delta_cycles_per_bit sensor;
          C_o = bandwidth A * log 2 (1 + (pu * channelGain) / noise_power_W (globalParams A)) * tau A;
          C_k = (xi * f_k_Hz e * tau A) / delta_cycles_per_bit sensor;
          localEnergy = theta (globalParams A) * fu ^ 3 * tau A;
          new_H_l = max 0 (H_l state - C_l) + (1 - a) * arrival;
          new_H_o = max 0 (H_o state - C_o) + a * arrival;
          new_H_k = max 0 (H_k state - C_k) + C_o;
          new_B_u = max 0 (B_u state - localEnergy) + harvest
      in (\<lparr>dec_kappa = kap, dec_alpha = alphaOut, dec_f_u = fu, dec_p_u = pu, dec_xi_u = xi\<rparr>,
          \<lparr>H_l = new_H_l, H_o = new_H_o, H_k = new_H_k, B_u = new_B_u\<rparr>,
          \<lparr>res_id = sensor_id sensor, res_H_l = new_H_l, res_H_o = new_H_o,
           res_H_k = new_H_k, res_alpha = alphaOut, local_energy_J = localEnergy,
           tx_energy_J = pu * tau A, p_tx_W = pu, f_cpu_Hz = fu, arrival_bits = arrival,
           harvest_J = harvest, res_battery_J = new_B_u\<rparr>))"

text \<open>The four state components, as a state and as recorded in a sensor's slot result.\<close>

definition nonneg_state :: "SensorState \<Rightarrow> bool" where
  "nonneg_state st \<longleftrightarrow> 0 \<le> H_l st \<and> 0 \<le> H_o st \<and> 0 \<le> H_k st \<and> 0 \<le> B_u st"

definition nonneg_result :: "SensorSlotResult \<Rightarrow> bool" where
  "nonneg_result r \<longleftrightarrow> 0 \<le> res_H_l r \<and> 0 \<le> res_H_o r \<and> 0 \<le> res_H_k r \<and> 0 \<le> res_battery_J r"

text \<open>
  The battery update between a state and the result of the slot that starts from it:
  harvest minus local energy, plus what clipping at zero adds.
\<close>

definition battery_rule :: "SensorState \<Rightarrow> SensorSlotResult \<Rightarrow> bool" where
  "battery_rule st r \<longleftrightarrow>
     res_battery_J r - B_u st = harvest_J r - local_energy_J r + max 0 (local_energy_J r - B_u st)"

text \<open>
  A number that JavaScript compares as \<open>\<ge> 0\<close>, and a sensor whose arrival and harvest
  draws are never negative.
\<close>

definition nonneg_number :: "number \<Rightarrow> bool" where
  "nonneg_number x =
     (case x of Finite v \<Rightarrow> 0 \<le> v | PosInfinity \<Rightarrow> True | NegInfinity \<Rightarrow> False | NaN \<Rightarrow> False)"

definition nonneg_events :: "SensorConfig \<Rightarrow> bool" where
  "nonneg_events sensor \<longleftrightarrow>
     (\<forall>s. nonneg_number (fst (generateArrival sensor s)) \<and>
          nonneg_number (fst (generateHarvest sensor s)))"

text \<open>
  The object's state after the three events of a sensor have been drawn and recorded in
  the histories.
\<close>

definition afterEvents :: "SensorConfig \<Rightarrow> real \<times> real \<times> real \<times> nat \<Rightarrow> PTSRAState \<Rightarrow> PTSRAState" where
  "afterEvents sensor ev st =
     updateHistory (sensor_id sensor) (fst ev) (fst (snd ev)) (fst (snd (snd ev)))
       (st\<lparr>rng := snd (snd (snd ev))\<rparr>)"

text \<open>
  The optimizer's best offload fraction for the sensor at index \<open>i\<close> in slot \<open>sl\<close>: the
  first gene of the best individual that \<open>optimize\<close> returns for the sensor's fitness
  function, over the three normalised bounds, started from the state in which the
  optimizer's generator is when the sensor's turn comes. With it, the object's state
  after the run. \<open>bestAlphas\<close> is the list of these fractions for the sensors of a slot,
  each run starting where the one before ended.
\<close>

definition bestAlpha ::
  "PTSRAAlgorithm \<Rightarrow> Env \<Rightarrow> nat \<Rightarrow> nat \<Rightarrow> SensorConfig \<Rightarrow> SensorState \<Rightarrow> PTSRAState
     \<Rightarrow> (real \<times> PTSRAState) option" where
  "bestAlpha P env sl i sensor state st =
     (case drawEvents sensor (rng st) of
        None \<Rightarrow> None
      | Some ev \<Rightarrow>
          (let st1 = afterEvents sensor ev st;
               predictions = predictFuture P st1 (mathRandom env sl i) sensor (horizon P)
           in case snd (optimize (ga P)
                          (\<lambda>individual. fitnessFunction P individual sensor state predictions
                             (alg_V (tsra P)) (tau (tsra P)) (bandwidth (tsra P)) (globalParams (tsra P)))
                          3 [(0, 1), (0.1, 1), (0, 1)] (opt_rng st1)) of
                Returned (result, s') \<Rightarrow> Some (genes (best result) ! 0, st1\<lparr>opt_rng := s'\<rparr>)
              | TypeError \<Rightarrow> None
              | NonFinite \<Rightarrow> None))"

fun bestAlphas ::
  "(nat \<Rightarrow> 'x \<Rightarrow> 's \<Rightarrow> (real \<times> 's) option) \<Rightarrow> nat \<Rightarrow> 'x list \<Rightarrow> 's \<Rightarrow> real list option" where
  "bestAlphas run i [] st = Some []"
| "bestAlphas run i (x # rest) st =
     (case run i x st of
        None \<Rightarrow> None
      | Some (a, st1) \<Rightarrow> map_option (\<lambda>as. a # as) (bestAlphas run (i + 1) rest st1))"

text \<open>
  A decision that reports the offload fraction \<open>a\<close>, and as its scheduling bit that
  fraction rounded at one half.
\<close>

definition kappa_rounds_alpha :: "real \<Rightarrow> SlotDecision \<Rightarrow> bool" where
  "kappa_rounds_alpha a d \<longleftrightarrow>
     dec_alpha d = a \<and> (dec_kappa d = 1 \<longleftrightarrow> a \<ge> 0.5) \<and> (dec_kappa d = 0 \<or> dec_kappa d = 1)"

text \<open>
  A predictive decision \<open>p\<close> that equals a baseline decision \<open>b\<close>, and a decision made
  of the three sub-problem solutions for a sensor and its state.
\<close>

definition same_decision :: "SlotDecision \<Rightarrow> SlotDecision \<Rightarrow> bool" where
  "same_decision b p \<longleftrightarrow>
     dec_alpha p = real (dec_kappa b) \<and> dec_kappa p = dec_kappa b \<and>
     dec_f_u p = dec_f_u b \<and> dec_p_u p = dec_p_u b \<and> dec_xi_u p = dec_xi_u b"

definition subproblem_decision :: "TSRAAlgorithm \<Rightarrow> SensorConfig \<Rightarrow> SensorState \<Rightarrow> SlotDecision \<Rightarrow> bool" where
  "subproblem_decision A sensor state d \<longleftrightarrow>
     dec_kappa d = taskSchedulingDecision state \<and>
     dec_f_u d = localCPUFrequencyAllocation A sensor state \<and>
     (\<exists>g. dec_p_u d = transmissionPowerAllocation A sensor state g)"

text \<open>
  The parameter domain of the data model: positive trade-off, slot duration, bandwidth,
  energy coefficient, noise power and cycles per bit; non-negative transmit power limit,
  channel variance, initial queue and initial battery; arrivals and harvests never
  negative.
\<close>

definition valid_sensor :: "SensorConfig \<Rightarrow> bool" where
  "valid_sensor sensor \<longleftrightarrow>
     nonneg_events sensor \<and> 0 \<le> initial_queue_bits sensor \<and> 0 \<le> battery_J sensor \<and>
     0 \<le> p_max_W sensor \<and> 0 < delta_cycles_per_bit sensor \<and> 0 \<le> channel_variance sensor"

definition valid_config :: "ExperimentConfig \<Rightarrow> bool" where
  "valid_config config \<longleftrightarrow>
     0 < cfg_V config \<and> 0 < slot_duration_s config \<and> 0 < bandwidth_Hz config \<and>
     0 < theta (global_params config) \<and> 0 < noise_power_W (global_params config) \<and>
     list_all valid_sensor (cfg_sensors config)"

text \<open>Every recorded sensor result of both policies is non-negative.\<close>

definition results_nonneg :: "SimulationState \<Rightarrow> bool" where
  "results_nonneg state \<longleftrightarrow>
     list_all (\<lambda>sr. list_all nonneg_result (sensor_results sr)) (tsra_results state) \<and>
     list_all (\<lambda>sr. list_all nonneg_result (sensor_results sr)) (ptsra_results state)"

text \<open>
  The invariant of a slot loop that never raises, before slot \<open>sl\<close>, for \<open>n\<close> sensors.
\<close>

definition loop_complete :: "nat \<Rightarrow> nat \<Rightarrow> LoopState \<Rightarrow> bool" where
  "loop_complete n sl ls \<longleftrightarrow>
     (case ls of (state, tsraRng, tsraStates, pst, ptsraStates) \<Rightarrow>
        length tsraStates = n \<and> length ptsraStates = n \<and>
        length (tsra_results state) = sl \<and> length (ptsra_results state) = sl \<and>
        list_all (\<lambda>sr. length (sensor_results sr) = n) (tsra_results state) \<and>
        list_all (\<lambda>sr. length (sensor_results sr) = n) (ptsra_results state) \<and>
        (n = 0 \<longrightarrow> optimizer_log state = []))"



text \<open>
  The average latency as the specification words it, with \<open>max(A, 10^5)\<close> as the rate.
\<close>

definition spec_avg_latency_ms :: "SensorSlotResult list \<Rightarrow> real" where
  "spec_avg_latency_ms results =
     sum_list (map (\<lambda>r. (res_H_l r + res_H_o r + res_H_k r) / max (arrival_bits r) (10 ^ 5) * 1000) results)
       / real (length results)"

subsection \<open>Example inputs\<close>

definition ex_global :: GlobalParams where
  "ex_global = \<lparr>default_delta_cycles_per_bit = 1, theta = 1, noise_power_W = 1, tau_s = 1\<rparr>"

definition ex_sensor :: SensorConfig where
  "ex_sensor =
     \<lparr>sensor_id = ''s1'', J_mean_bits_per_slot = 1,
      arrival_model = \<lparr>arrival_type = ArrFixed, lambda = None, value_bits = Some 1,
                       min_bits = None, max_bits = None\<rparr>,
      initial_queue_bits = 6, battery_J = 0, harvest_mean_J_per_slot = 1,
      harvest_model = \<lparr>harvest_type = HarvConstant, harvest_p = None, value_J = Some 1,
                       mean_J = None, std_J = None\<rparr>,
      f_max_Hz = 1, delta_cycles_per_bit = 1, p_max_W = 1, channel_mean_gain = 1,
      channel_variance = 0, offload_mode = Fractional, priority_weight = 1\<rparr>"

definition ex_edge :: EdgeServerConfig where
  "ex_edge = \<lparr>edge_id = ''edge-1'', f_k_Hz = 1, edge_f_max_Hz = 1, num_cores = 1\<rparr>"

definition ex_tsra :: TSRAAlgorithm where
  "ex_tsra = \<lparr>alg_V = 1, tau = 1, bandwidth = 1, globalParams = ex_global\<rparr>"

definition ex_optimizer :: OptimizerConfig where
  "ex_optimizer = \<lparr>cfg_population = 2, cfg_generations = 1, mutation_prob = 0,
     random_restarts = 0, max_evals = 0, time_budget_s = None\<rparr>"

definition ex_ptsra :: "nat \<Rightarrow> PTSRAAlgorithm" where
  "ex_ptsra h = fst (newPTSRAAlgorithm 1 1 1 ex_global 0 h ex_optimizer)"

definition ex_predictions :: PredictionHorizon where
  "ex_predictions = \<lparr>arrivals = [0], harvests = [0], channelGains = [1]\<rparr>"

definition ex_state :: SensorState where
  "ex_state = \<lparr>H_l = 0, H_o = 0, H_k = 0, B_u = 1 / 2\<rparr>"

definition ex_result :: SensorSlotResult where
  "ex_result = \<lparr>res_id = ''s2'', res_H_l = 50000, res_H_o = 0, res_H_k = 0, res_alpha = 0,
     local_energy_J = 0, tx_energy_J = 0, p_tx_W = 0, f_cpu_Hz = 0, arrival_bits = 50000,
     harvest_J = 0, res_battery_J = 0\<rparr>"

definition ex_drained :: SensorState where
  "ex_drained = \<lparr>H_l = 3, H_o = 0, H_k = 0, B_u = 0\<rparr>"

definition ex_baseline_result :: SensorSlotResult where
  "ex_baseline_result =
     (case executeSlot ex_tsra [ex_sensor] [ex_drained] (Some ex_edge) 0 of
        Returned (out, s) \<Rightarrow> hd (sensorResults out))"

definition ex_env :: Env where
  "ex_env = \<lparr>mathRandom = (\<lambda>sl i h k. 0), clock = (\<lambda>sl i g. 0)\<rparr>"

definition ex_pstate :: PTSRAState where
  "ex_pstate = snd (newPTSRAAlgorithm 1 1 1 ex_global 0 1 ex_optimizer)"

definition ex_config :: "SensorConfig list \<Rightarrow> ExperimentConfig" where
  "ex_config ss =
     \<lparr>experiment_name = ''example'', cfg_seed = 42, slots = 3, slot_duration_s = 1,
      bandwidth_Hz = 1, cfg_V = 1, prediction_horizon = 1, opt_mode = PerSlot,
      optimizer = ex_optimizer, global_params = ex_global, cfg_sensors = ss,
      edge_servers = [ex_edge], cloud = \<lparr>latency_s = 0, compute_capacity_cycles_per_slot = 0\<rparr>\<rparr>"

definition ex_empty_config :: ExperimentConfig where
  "ex_empty_config = ex_config []"

definition ex_zero_draw_config :: ExperimentConfig where
  "ex_zero_draw_config = (ex_config [ex_sensor])\<lparr>cfg_seed := 2463401483\<rparr>"

section \<open>The generator against Mulberry32\<close>

text \<open>
  While the running state stays below \<open>2^53\<close> the addition is exact, and \<open>random()\<close> is
  one step of Mulberry32 on the state modulo \<open>2^32\<close>.
\<close>

lemma random_below_2_53:
  assumes "s + 0x6d2b79f5 < 2 ^ 53"
  shows "random s = (fst (mulberry32 (word_of_nat s)), s + 0x6d2b79f5)"
    and "word_of_nat (snd (random s)) = snd (mulberry32 (word_of_nat s))"
  using assms by (simp_all add: random_def mulberry32_def fl53_def imul_def Let_def)

lemma random_seq_below_2_53:
  "s + n * 0x6d2b79f5 < 2 ^ 53 \<Longrightarrow>
     random_seq n s = mulberry32_seq n (word_of_nat s) \<and>
     random_state n s = s + n * 0x6d2b79f5"
proof (induction n arbitrary: s)
  case 0
  then show ?case by simp
next
  case (Suc n)
  have b: "s + 0x6d2b79f5 < 2 ^ 53" using Suc.prems by simp
  have st: "snd (random s) = s + 0x6d2b79f5" using random_below_2_53(1) [OF b] by simp
  have "(s + 0x6d2b79f5) + n * 0x6d2b79f5 < 2 ^ 53" using Suc.prems by simp
  from Suc.IH [OF this] show ?case
    using random_below_2_53 [OF b] st by simp
qed

lemma random_seq_snoc:
  "random_seq (Suc n) s = random_seq n s @ [fst (random (random_state n s))]"
  by (induction n arbitrary: s) simp_all

lemma mulberry32_seq_snoc:
  "s + n * 0x6d2b79f5 < 2 ^ 53 \<Longrightarrow> mulberry32_seq (Suc n) (word_of_nat s) =
     mulberry32_seq n (word_of_nat s) @ [fst (mulberry32 (word_of_nat (s + n * 0x6d2b79f5)))]"
proof (induction n arbitrary: s)
  case 0
  then show ?case by simp
next
  case (Suc n)
  have "(s + 0x6d2b79f5) + n * 0x6d2b79f5 < 2 ^ 53" using Suc.prems by simp
  from Suc.IH [OF this] show ?case
    by (simp add: mulberry32_def Let_def add.commute add.left_commute)
qed

lemma floorlog_2_53: "floorlog 2 9007199260973067 = 54"
proof -
  have "floorlog 2 9007199260973067 \<le> 54" by (rule floorlog_leI) simp_all
  moreover have "54 \<le> floorlog 2 9007199260973067" by (rule floorlog_geI) simp_all
  ultimately show ?thesis by simp
qed

lemma random_at_2_53: "fst (random 9007197429407254) = 2430946484 / 4294967296"
  by (simp add: random_def fl53_def floorlog_2_53 imul_def Let_def)

lemma mulberry32_at_2_53:
  "fst (mulberry32 (word_of_nat 9007197429407254)) = 3767445004 / 4294967296"
  by (simp add: mulberry32_def Let_def)

text \<open>
  The value 0 is drawn: with seed 2463401483 the first sum is \<open>2^32\<close>, which the bitwise
  operators read as 0. This is the draw at which \<open>gaussian\<close> takes the logarithm of 0.
\<close>

lemma random_zero_draw: "fst (random (SeededRandom 2463401483)) = 0"
  by (simp add: random_def fl53_def imul_def SeededRandom_def Let_def)

text \<open>
  Claim C2. \<open>random()\<close> is meant to be Mulberry32 with all operations truncated modulo
  \<open>2^32\<close>, for every seed and every call. The code adds to an untruncated state: from
  seed 0, after 4917758 calls the state is 9007197429407254, the next sum exceeds \<open>2^53\<close>
  and is rounded to an even number, and the 4917759th value is 2430946484 / 2^32 where
  Mulberry32 gives 3767445004 / 2^32. So the sequence of the first 4917759 values of the
  code differs from the Mulberry32 sequence.
\<close>

theorem random_diverges_from_mulberry32:
  "random_seq 4917759 (SeededRandom 0) \<noteq> mulberry32_seq 4917759 (word_of_nat (SeededRandom 0))"
proof -
  have n: "(4917759::nat) = Suc 4917758" by simp
  have b: "(0::nat) + 4917758 * 0x6d2b79f5 < 2 ^ 53" by simp
  have st: "random_state 4917758 0 = 9007197429407254"
    using random_seq_below_2_53 [OF b] by simp
  have l1: "last (random_seq (Suc 4917758) 0) = 2430946484 / 4294967296"
    unfolding random_seq_snoc st using random_at_2_53 by simp
  have l2: "last (mulberry32_seq (Suc 4917758) (word_of_nat 0)) = 3767445004 / 4294967296"
    unfolding mulberry32_seq_snoc [OF b] using mulberry32_at_2_53 by simp
  have "random_seq (Suc 4917758) 0 \<noteq> mulberry32_seq (Suc 4917758) (word_of_nat 0)"
  proof
    assume "random_seq (Suc 4917758) 0 = mulberry32_seq (Suc 4917758) (word_of_nat 0)"
    then have "(2430946484 / 4294967296 :: real) = 3767445004 / 4294967296"
      using l1 l2 by simp
    then show False by simp
  qed
  then show ?thesis unfolding n by (simp add: SeededRandom_def)
qed

text \<open>
  Claim C9, as stated: \<open>uniform(a, b)\<close> with \<open>a > b\<close> returns \<open>a\<close>. It does not: with
  seed 0 the first draw is 1144304738 / 2^32, and \<open>uniform(1, 0)\<close> returns one minus that.
\<close>

theorem uniform_reversed_counterexample:
  "fst (uniform 1 0 (SeededRandom 0)) \<noteq> 1"
  by (simp add: uniform_def random_def fl53_def imul_def SeededRandom_def Let_def)

text \<open>
  Claim C9, amended: \<open>uniform(a, b)\<close> is total and, for \<open>a > b\<close>, returns
  \<open>a - r * (a - b)\<close> where \<open>r\<close> is the next value of \<open>random()\<close>: a value greater than \<open>b\<close>
  and at most \<open>a\<close>, equal to \<open>a\<close> exactly when \<open>r = 0\<close>.
\<close>

theorem uniform_reversed:
  assumes "b < a"
  shows "fst (uniform a b s) = a - fst (random s) * (a - b) \<and>
         b < fst (uniform a b s) \<and> fst (uniform a b s) \<le> a \<and>
         (fst (uniform a b s) = a \<longleftrightarrow> fst (random s) = 0)"
proof -
  obtain r s' where rs: "random s = (r, s')" by (cases "random s")
  have r: "0 \<le> r" "r < 1" using random_range [of s] rs by simp_all
  have u: "fst (uniform a b s) = a - r * (a - b)"
    by (simp add: uniform_def rs algebra_simps)
  have "r * (a - b) < 1 * (a - b)"
    using r assms by (intro mult_strict_right_mono) simp_all
  then have lo: "b < fst (uniform a b s)" using u by simp
  have "0 \<le> r * (a - b)" using r assms by simp
  then have hi: "fst (uniform a b s) \<le> a" using u by simp
  have eq: "fst (uniform a b s) = a \<longleftrightarrow> fst (random s) = 0"
    using u assms rs by simp
  show ?thesis using u lo hi eq rs by simp
qed

theorem uniform_reversed_witness:
  "(0::real) < 1 \<and> fst (uniform 1 0 0) = 1 - fst (random 0) * (1 - 0) \<and> 0 < fst (uniform 1 0 0)
     \<and> fst (uniform 1 0 0) \<le> 1"
  using uniform_reversed [of 0 1 0] by simp

section \<open>The optimizer keeps genes within bounds\<close>

lemma uniform_range:
  assumes "mn \<le> mx"
  shows "mn \<le> fst (uniform mn mx s) \<and> fst (uniform mn mx s) \<le> mx"
proof -
  obtain r s' where rs: "random s = (r, s')" by (cases "random s")
  have r: "0 \<le> r" "r < 1" using random_range [of s] rs by simp_all
  have u: "fst (uniform mn mx s) = r * (mx - mn) + mn" by (simp add: uniform_def rs)
  have "0 \<le> r * (mx - mn)" using r assms by simp
  moreover have "r * (mx - mn) \<le> 1 * (mx - mn)"
    using r assms by (intro mult_right_mono) simp_all
  ultimately show ?thesis using u by simp
qed

lemma initGenes_inBounds:
  "validBounds bs \<Longrightarrow> inBounds bs (fst (initGenes bs s))"
proof (induction bs arbitrary: s)
  case Nil
  then show ?case by (simp add: inBounds_def)
next
  case (Cons b bs)
  obtain mn mx where b: "b = (mn, mx)" by (cases b)
  have le: "mn \<le> mx" and vb: "validBounds bs" using Cons.prems by (simp_all add: validBounds_def b)
  show ?case
    using uniform_range [OF le, of s] Cons.IH [OF vb]
    by (simp add: b inBounds_def split_def Let_def)
qed

lemma initializePopulation_props:
  "validBounds bs \<Longrightarrow>
     length (fst (initializePopulation n bs s)) = n \<and>
     list_all (inBounds bs) (fst (initializePopulation n bs s))"
proof (induction n arbitrary: s)
  case 0
  then show ?case by simp
next
  case (Suc n)
  then show ?case
    using initGenes_inBounds [of bs s] by (simp add: split_def Let_def)
qed

lemma tournament_index:
  assumes "pop \<noteq> []"
  shows "nat \<lfloor>fst (random s) * real (length pop)\<rfloor> < length pop"
proof -
  have r: "0 \<le> fst (random s)" "fst (random s) < 1" using random_range [of s] by simp_all
  have len: "0 < real (length pop)" using assms by simp
  have "fst (random s) * real (length pop) < 1 * real (length pop)"
    using r len by (intro mult_strict_right_mono) simp_all
  then have "\<lfloor>fst (random s) * real (length pop)\<rfloor> < int (length pop)"
    by (simp add: floor_less_iff)
  moreover have "0 \<le> \<lfloor>fst (random s) * real (length pop)\<rfloor>"
    using r by simp
  ultimately show ?thesis by (simp add: nat_less_iff)
qed

lemma tournamentLoop_member:
  assumes "pop \<noteq> []" and "b = None \<or> the b \<in> set pop" and "0 < n \<or> b \<noteq> None"
  shows "fst (tournamentLoop n pop b s) \<noteq> None \<and> the (fst (tournamentLoop n pop b s)) \<in> set pop"
  using assms
proof (induction n arbitrary: b s)
  case 0
  then show ?case by auto
next
  case (Suc n)
  define cand where "cand = pop ! nat \<lfloor>fst (random s) * real (length pop)\<rfloor>"
  have c: "cand \<in> set pop" unfolding cand_def using tournament_index [OF Suc.prems(1)] by simp
  define b' where "b' = (case b of None \<Rightarrow> Some cand
                | Some x \<Rightarrow> if fitness cand < fitness x then Some cand else Some x)"
  have b': "b' \<noteq> None" "the b' \<in> set pop"
    using c Suc.prems(2) by (auto simp: b'_def split: option.splits)
  have "tournamentLoop (Suc n) pop b s = tournamentLoop n pop b' (snd (random s))"
    unfolding b'_def cand_def by (simp add: split_def Let_def)
  then show ?case using Suc.IH [of b' "snd (random s)"] b' Suc.prems(1) by simp
qed

lemma tournamentSelect_member:
  "pop \<noteq> [] \<Longrightarrow> 0 < tournamentSize G \<Longrightarrow> fst (tournamentSelect G pop s) \<in> set pop"
  using tournamentLoop_member [of pop None "tournamentSize G" s]
  by (simp add: tournamentSelect_def split_def Let_def)

lemma crossover_inBounds:
  "inBounds bs g1 \<Longrightarrow> inBounds bs g2 \<Longrightarrow> inBounds bs (fst (crossover g1 g2 s))"
proof (induction g1 arbitrary: g2 bs s)
  case Nil
  then show ?case by (simp add: inBounds_def)
next
  case (Cons a g1)
  from Cons.prems(1) obtain b bs' where bs: "bs = b # bs'" and a: "fst b \<le> a" "a \<le> snd b"
    and g1: "inBounds bs' g1"
    by (auto simp: inBounds_def list_all2_Cons1)
  from Cons.prems(2) bs obtain c g2' where g2: "g2 = c # g2'" and c: "fst b \<le> c" "c \<le> snd b"
    and g2': "inBounds bs' g2'"
    by (auto simp: inBounds_def list_all2_Cons2)
  have "inBounds bs' (fst (crossover g1 g2' s1))" for s1
    using Cons.IH [OF g1 g2'] .
  then show ?case using a c by (simp add: bs g2 inBounds_def split_def Let_def)
qed

lemma gaussian_NaN: "fst (gaussian m sd s) = NaN \<Longrightarrow> sd = 0"
  by (auto simp: gaussian_def js_plus_def js_times_def split_def Let_def
      split: if_splits number.splits)

lemma clamp_gene:
  assumes "mn \<le> mx"
  shows "case js_max mn (js_min mx (js_plus a m)) of
           Finite g \<Rightarrow> mn \<le> g \<and> g \<le> mx
         | PosInfinity \<Rightarrow> False | NegInfinity \<Rightarrow> False | NaN \<Rightarrow> m = NaN"
  using assms by (cases m) (simp_all add: js_max_def js_min_def js_plus_def)

lemma mutate_props:
  "validBounds bs \<Longrightarrow> inBounds bs g \<Longrightarrow>
     (case mutate G g bs s of
        Returned (g', s') \<Rightarrow> inBounds bs g'
      | TypeError \<Rightarrow> False
      | NonFinite \<Rightarrow> \<not> strictBounds bs)"
proof (induction g arbitrary: bs s)
  case Nil
  then show ?case by (simp add: inBounds_def)
next
  case (Cons a g)
  from Cons.prems(2) obtain b bs' where bs: "bs = b # bs'" and a: "fst b \<le> a" "a \<le> snd b"
    and g: "inBounds bs' g"
    by (auto simp: inBounds_def list_all2_Cons1)
  obtain mn mx where b: "b = (mn, mx)" by (cases b)
  have vb: "mn \<le> mx" "validBounds bs'" using Cons.prems(1) by (simp_all add: bs b validBounds_def)
  have ih: "case mutate G g bs' s1 of
              Returned (g', s') \<Rightarrow> inBounds bs' g'
            | TypeError \<Rightarrow> False
            | NonFinite \<Rightarrow> \<not> strictBounds bs'" for s1
    using Cons.IH [OF vb(2) g] .
  have rest: "case map_outcome (\<lambda>(rest, s3). (x # rest, s3)) (mutate G g bs' s1) of
                Returned (g', s') \<Rightarrow> inBounds bs g'
              | TypeError \<Rightarrow> False
              | NonFinite \<Rightarrow> \<not> strictBounds bs" if "mn \<le> x" "x \<le> mx" for x s1
    using ih [of s1] that
    by (cases "mutate G g bs' s1") (auto simp: bs b inBounds_def strictBounds_def)
  show ?case
  proof (cases "fst (random s) < mutationProb G")
    case False
    then show ?thesis using rest [of a "snd (random s)"] a
      by (simp add: bs b split_def Let_def)
  next
    case True
    define m where "m = gaussian 0 ((mx - mn) * 0.1) (snd (random s))"
    have mu: "mutate G (a # g) bs s =
                (case js_max mn (js_min mx (js_plus a (fst m))) of
                   Finite g' \<Rightarrow> map_outcome (\<lambda>(rest, s3). (g' # rest, s3)) (mutate G g bs' (snd m))
                 | _ \<Rightarrow> NonFinite)"
      using True unfolding m_def by (simp add: bs b split_def Let_def cong: number.case_cong)
    show ?thesis
    proof (cases "js_max mn (js_min mx (js_plus a (fst m)))")
      case (Finite x)
      then have "mn \<le> x" "x \<le> mx" using clamp_gene [OF vb(1), where a = a and m = "fst m"] by simp_all
      then show ?thesis unfolding mu Finite using rest [of x "snd m"] by simp
    next
      case PosInfinity
      then show ?thesis using clamp_gene [OF vb(1), where a = a and m = "fst m"] by simp
    next
      case NegInfinity
      then show ?thesis using clamp_gene [OF vb(1), where a = a and m = "fst m"] by simp
    next
      case NaN
      then have "fst m = NaN" using clamp_gene [OF vb(1), where a = a and m = "fst m"] by simp
      then have "(mx - mn) * 0.1 = 0" unfolding m_def by (rule gaussian_NaN)
      then have "\<not> mn < mx" by simp
      then show ?thesis unfolding mu NaN by (simp add: bs b strictBounds_def)
    qed
  qed
qed

lemma breed_props:
  assumes "pop \<noteq> []" and "0 < tournamentSize G" and "validBounds bs"
    and "list_all (\<lambda>i. inBounds bs (genes i)) pop"
  shows "case breed G pop bs n s of
           Returned (children, s') \<Rightarrow> length children = n \<and> list_all (inBounds bs) children
         | TypeError \<Rightarrow> False
         | NonFinite \<Rightarrow> \<not> strictBounds bs"
proof (induction n arbitrary: s)
  case 0
  then show ?case by simp
next
  case (Suc n)
  have sel: "inBounds bs (genes (fst (tournamentSelect G pop s1)))" for s1
    using tournamentSelect_member [OF assms(1,2), of s1] assms(4) by (simp add: list_all_iff)
  define p1 where "p1 = tournamentSelect G pop s"
  define p2 where "p2 = tournamentSelect G pop (snd p1)"
  define c where "c = crossover (genes (fst p1)) (genes (fst p2)) (snd p2)"
  have cb: "inBounds bs (fst c)"
    unfolding c_def p2_def p1_def by (intro crossover_inBounds sel)
  have br: "breed G pop bs (Suc n) s =
              (case mutate G (fst c) bs (snd c) of
                 Returned (child', s4) \<Rightarrow>
                   map_outcome (\<lambda>(children, s5). (child' # children, s5)) (breed G pop bs n s4)
               | TypeError \<Rightarrow> TypeError
               | NonFinite \<Rightarrow> NonFinite)"
    unfolding c_def p2_def p1_def by (simp add: split_def Let_def)
  note m = mutate_props [OF assms(3) cb, of G "snd c"]
  show ?case
  proof (cases "mutate G (fst c) bs (snd c)")
    case (Returned x)
    obtain child' s4 where x: "x = (child', s4)" by (cases x)
    have ch: "inBounds bs child'" using m Returned x by simp
    show ?thesis unfolding br Returned x using Suc.IH [of s4] ch
      by (cases "breed G pop bs n s4") auto
  next
    case TypeError
    then show ?thesis using m by simp
  next
    case NonFinite
    then show ?thesis unfolding br using m by simp
  qed
qed

lemma evaluatePopulation_props:
  "length (fst (evaluatePopulation pop ff)) = length pop \<and>
   map genes (fst (evaluatePopulation pop ff)) = pop"
  by (simp add: evaluatePopulation_def Let_def comp_def)

lemma optimizeLoop_step:
  "snd (optimizeLoop G ff bs (Suc n) gen pop ic bestEver stag ev0 s) =
     (let best1 = (if fitness (hd pop) < fitness bestEver then hd pop else bestEver);
          stag1 = (if fitness (hd pop) < fitness bestEver then 0 else stag + 1)
      in if stag1 \<ge> (generations G + 1) div 2 then Returned (best1, stag1, ev0, s)
         else if length pop < eliteCount G then TypeError
         else (case breed G pop bs (populationSize G - eliteCount G) s of
                 Returned br \<Rightarrow>
                   (let ev = evaluatePopulation (map genes (take (eliteCount G) pop) @ fst br) ff;
                        sorted = sort_key fitness (fst ev);
                        best2 = (if fitness (hd sorted) < fitness best1 then hd sorted else best1)
                    in snd (optimizeLoop G ff bs n (gen + 1) sorted (snd ev) best2 stag1
                              (ev0 + populationSize G) (snd br)))
               | TypeError \<Rightarrow> TypeError
               | NonFinite \<Rightarrow> NonFinite))"
  by (simp add: split_def Let_def split: outcome.splits)

lemma optimizeLoop_props:
  assumes G: "0 < tournamentSize G" "0 < populationSize G"
    and vb: "validBounds bs"
    and "length pop = populationSize G"
    and "list_all (\<lambda>i. inBounds bs (genes i)) pop"
    and "inBounds bs (genes bestEver)"
  shows "case snd (optimizeLoop G ff bs n gen pop ic bestEver stag ev0 s) of
           Returned (b, r) \<Rightarrow> inBounds bs (genes b)
         | TypeError \<Rightarrow> populationSize G < eliteCount G
         | NonFinite \<Rightarrow> \<not> strictBounds bs"
  using assms(4-6)
proof (induction n arbitrary: gen pop ic bestEver stag ev0 s)
  case 0
  then show ?case by simp
next
  case (Suc n)
  have ne: "pop \<noteq> []" using Suc.prems(1) G(2) by auto
  then have hd_in: "hd pop \<in> set pop" by simp
  define best1 where "best1 = (if fitness (hd pop) < fitness bestEver then hd pop else bestEver)"
  define stag1 where "stag1 = (if fitness (hd pop) < fitness bestEver then 0 else stag + 1)"
  have b1: "inBounds bs (genes best1)"
    using hd_in Suc.prems(2,3) by (simp add: best1_def list_all_iff)
  note br = breed_props [OF ne G(1) vb Suc.prems(2), of "populationSize G - eliteCount G" s]
  consider (stop) "stag1 \<ge> (generations G + 1) div 2"
    | (throw) "\<not> stag1 \<ge> (generations G + 1) div 2" "length pop < eliteCount G"
    | (nan) "\<not> stag1 \<ge> (generations G + 1) div 2" "\<not> length pop < eliteCount G"
        "breed G pop bs (populationSize G - eliteCount G) s = NonFinite"
    | (go) children s1 where "\<not> stag1 \<ge> (generations G + 1) div 2" "\<not> length pop < eliteCount G"
        "breed G pop bs (populationSize G - eliteCount G) s = Returned (children, s1)"
    using br by (cases "breed G pop bs (populationSize G - eliteCount G) s") auto
  then show ?case
  proof cases
    case stop
    then show ?thesis using b1
      unfolding optimizeLoop_step best1_def stag1_def Let_def by simp
  next
    case throw
    then show ?thesis using Suc.prems(1)
      unfolding optimizeLoop_step best1_def stag1_def Let_def by simp
  next
    case nan
    then show ?thesis using br
      unfolding optimizeLoop_step best1_def stag1_def Let_def by simp
  next
    case go
    have ec: "eliteCount G \<le> populationSize G" using go(2) Suc.prems(1) by simp
    define elites where "elites = map genes (take (eliteCount G) pop)"
    define ev where "ev = evaluatePopulation (elites @ children) ff"
    define sorted where "sorted = sort_key fitness (fst ev)"
    define best2 where "best2 = (if fitness (hd sorted) < fitness best1 then hd sorted else best1)"
    have el: "length elites = eliteCount G" "list_all (inBounds bs) elites"
      using Suc.prems(1,2) ec by (auto simp: elites_def list_all_iff dest: in_set_takeD)
    have ch: "length children = populationSize G - eliteCount G" "list_all (inBounds bs) children"
      using br go(3) by simp_all
    have evp: "length (fst ev) = populationSize G" "map genes (fst ev) = elites @ children"
      using evaluatePopulation_props [of "elites @ children" ff] el(1) ch(1) ec by (simp_all add: ev_def)
    have all_ev: "list_all (\<lambda>i. inBounds bs (genes i)) (fst ev)"
    proof -
      have "list_all (inBounds bs) (map genes (fst ev))" using evp(2) el(2) ch(2) by simp
      then show ?thesis by (simp add: list_all_iff)
    qed
    have so: "length sorted = populationSize G" "list_all (\<lambda>i. inBounds bs (genes i)) sorted"
      using evp(1) all_ev by (simp_all add: sorted_def list_all_iff)
    have "sorted \<noteq> []" using so(1) G(2) by auto
    then have "hd sorted \<in> set sorted" by simp
    then have b2: "inBounds bs (genes best2)" using so(2) b1 by (simp add: best2_def list_all_iff)
    have step: "snd (optimizeLoop G ff bs (Suc n) gen pop ic bestEver stag ev0 s) =
                snd (optimizeLoop G ff bs n (gen + 1) sorted (snd ev) best2 stag1
                       (ev0 + populationSize G) s1)"
      using go
      unfolding optimizeLoop_step best2_def sorted_def ev_def elites_def best1_def stag1_def Let_def
      by simp
    show ?thesis unfolding step using Suc.IH [OF so(1) so(2) b2] .
  qed
qed

lemma optimize_props:
  assumes G: "0 < tournamentSize G" and vb: "validBounds bs" and gc: "geneCount = length bs"
  shows "case snd (optimize G ff geneCount bs s) of
           Returned (r, s') \<Rightarrow> inBounds bs (genes (best r))
         | TypeError \<Rightarrow> populationSize G < eliteCount G \<or> populationSize G = 0
         | NonFinite \<Rightarrow> \<not> strictBounds bs"
proof (cases "populationSize G = 0")
  case True
  then show ?thesis by (simp add: optimize_def evaluatePopulation_def gc)
next
  case False
  then have pos: "0 < populationSize G" by simp
  define ip where "ip = initializePopulation (populationSize G) bs s"
  define ev where "ev = evaluatePopulation (fst ip) ff"
  define sorted where "sorted = sort_key fitness (fst ev)"
  have ipp: "length (fst ip) = populationSize G" "list_all (inBounds bs) (fst ip)"
    using initializePopulation_props [OF vb, of "populationSize G" s] by (simp_all add: ip_def)
  have evp: "length (fst ev) = populationSize G" "map genes (fst ev) = fst ip"
    using evaluatePopulation_props [of "fst ip" ff] ipp(1) by (simp_all add: ev_def)
  have all_ev: "list_all (\<lambda>i. inBounds bs (genes i)) (fst ev)"
  proof -
    have "list_all (inBounds bs) (map genes (fst ev))" using evp(2) ipp(2) by simp
    then show ?thesis by (simp add: list_all_iff)
  qed
  have so: "length sorted = populationSize G" "list_all (\<lambda>i. inBounds bs (genes i)) sorted"
    using evp(1) all_ev by (simp_all add: sorted_def list_all_iff)
  have ne: "sorted \<noteq> []" using so(1) pos by auto
  then have "hd sorted \<in> set sorted" by simp
  then have hb: "inBounds bs (genes (hd sorted))" using so(2) by (simp add: list_all_iff)
  define lp where "lp = optimizeLoop G ff bs (generations G) 0 sorted (snd ev) (hd sorted) 0
                          (populationSize G) (snd ip)"
  have l: "case snd lp of
             Returned (b, r) \<Rightarrow> inBounds bs (genes b)
           | TypeError \<Rightarrow> populationSize G < eliteCount G
           | NonFinite \<Rightarrow> \<not> strictBounds bs"
    unfolding lp_def by (rule optimizeLoop_props [OF G pos vb so(1) so(2) hb])
  have o: "snd (optimize G ff geneCount bs s) =
             (case snd lp of
                Returned (bestEver, stagnationCount, totalEvaluations, s2) \<Rightarrow>
                  Returned (\<lparr>best = bestEver, res_generations = generations G,
                             evaluations = totalEvaluations,
                             converged = (stagnationCount \<ge> (generations G + 1) div 2)\<rparr>, s2)
              | TypeError \<Rightarrow> TypeError
              | NonFinite \<Rightarrow> NonFinite)"
    using ne gc unfolding lp_def sorted_def ev_def ip_def
    by (simp add: optimize_def split_def Let_def split: prod.splits outcome.splits)
  show ?thesis unfolding o using l by (auto split: outcome.splits)
qed

lemma optimizeAlpha_props:
  assumes "0 < tournamentSize (ga P)"
  shows "case snd (optimizeAlpha P elapsed sensor state predictions s) of
           Returned ((al, fu, pu), s') \<Rightarrow>
             0 \<le> al \<and> al \<le> 1 \<and>
             (\<exists>fNorm pNorm. fu = fNorm * f_max_Hz sensor \<and> 1 / 10 \<le> fNorm \<and> fNorm \<le> 1 \<and>
                            pu = pNorm * p_max_W sensor \<and> 0 \<le> pNorm \<and> pNorm \<le> 1)
         | TypeError \<Rightarrow> populationSize (ga P) < eliteCount (ga P) \<or> populationSize (ga P) = 0
         | NonFinite \<Rightarrow> False"
proof -
  define ff where "ff = (\<lambda>individual. fitnessFunction P individual sensor state predictions
                            (alg_V (tsra P)) (tau (tsra P)) (bandwidth (tsra P)) (globalParams (tsra P)))"
  define bs :: "(real \<times> real) list" where "bs = [(0, 1), (0.1, 1), (0, 1)]"
  have vb: "validBounds bs" by (simp add: bs_def validBounds_def)
  have sb: "strictBounds bs" by (simp add: bs_def strictBounds_def)
  have gc: "3 = length bs" by (simp add: bs_def)
  note o = optimize_props [OF assms vb gc, of ff s]
  have oa: "snd (optimizeAlpha P elapsed sensor state predictions s) =
              (case snd (optimize (ga P) ff 3 bs s) of
                 Returned (result, s') \<Rightarrow>
                   Returned ((genes (best result) ! 0, genes (best result) ! 1 * f_max_Hz sensor,
                              genes (best result) ! 2 * p_max_W sensor), s')
               | TypeError \<Rightarrow> TypeError
               | NonFinite \<Rightarrow> NonFinite)"
    unfolding ff_def bs_def
    by (simp add: optimizeAlpha_def split_def Let_def split: outcome.splits)
  show ?thesis
  proof (cases "snd (optimize (ga P) ff 3 bs s)")
    case TypeError
    then show ?thesis using o oa by simp
  next
    case NonFinite
    then show ?thesis using o sb by simp
  next
    case (Returned a)
    obtain r s' where a: "a = (r, s')" by (cases a)
    have "inBounds bs (genes (best r))" using o Returned a by simp
    then obtain g0 g1 g2 where g: "genes (best r) = [g0, g1, g2]"
      and b: "0 \<le> g0" "g0 \<le> 1" "1 / 10 \<le> g1" "g1 \<le> 1" "0 \<le> g2" "g2 \<le> 1"
      by (auto simp: inBounds_def bs_def list_all2_Cons2)
    show ?thesis using oa Returned a g b by auto
  qed
qed

section \<open>The loops over the sensors\<close>

lemma tsraLoop_all2:
  assumes "\<And>sensor state s row s'. (sensor, state) \<in> set xs \<Longrightarrow>
             tsraSensor A e al sensor state s = Returned (row, s') \<Longrightarrow> Q (sensor, state) row"
    and "tsraLoop A e al xs s0 = Returned (rows, s1)"
  shows "list_all2 Q xs rows"
  using assms
proof (induction xs arbitrary: s0 rows s1)
  case Nil
  then show ?case by simp
next
  case (Cons x xs)
  obtain sensor state where x: "x = (sensor, state)" by (cases x)
  from Cons.prems(2) obtain row s' rows' where
    b: "tsraSensor A e al sensor state s0 = Returned (row, s')"
    and l: "tsraLoop A e al xs s' = Returned (rows', s1)" and rows: "rows = row # rows'"
    by (auto simp: x split: outcome.splits)
  have "Q x row" using Cons.prems(1) [of sensor state s0 row s'] b x by simp
  moreover have "list_all2 Q xs rows'"
    using Cons.IH [OF _ l] Cons.prems(1) by simp
  ultimately show ?case using rows by simp
qed

lemma tsraLoop_length:
  assumes "tsraLoop A e al xs s = Returned (rows, s')"
  shows "length rows = length xs"
proof -
  have "list_all2 (\<lambda>x y. True) xs rows" by (rule tsraLoop_all2 [OF _ assms]) simp
  then show ?thesis by (simp add: list_all2_lengthD)
qed

lemma consRow_Returned:
  "consRow logs row r = (lg, Returned (rows, st)) \<Longrightarrow>
     \<exists>logs' rows'. r = (logs', Returned (rows', st)) \<and> rows = row # rows' \<and> lg = logs @ logs'"
  by (auto simp: consRow_def split: prod.splits outcome.splits)

lemma ptsraLoop_all2:
  assumes "\<And>i x st lg row st'. x \<in> set xs \<Longrightarrow> body i x st = (lg, Returned (row, st')) \<Longrightarrow> Q x row"
    and "ptsraLoop body i0 xs st0 = (logs, Returned (rows, st1))"
  shows "list_all2 Q xs rows"
  using assms
proof (induction xs arbitrary: i0 st0 logs rows st1)
  case Nil
  then show ?case by simp
next
  case (Cons x xs)
  from Cons.prems(2) obtain lg row st' where b: "body i0 x st0 = (lg, Returned (row, st'))"
    and c: "consRow lg row (ptsraLoop body (i0 + 1) xs st') = (logs, Returned (rows, st1))"
    by (auto simp: consRow_def split: prod.splits outcome.splits)
  from consRow_Returned [OF c] obtain logs' rows' where
    r: "ptsraLoop body (i0 + 1) xs st' = (logs', Returned (rows', st1))" and rows: "rows = row # rows'"
    by blast
  have "Q x row" using Cons.prems(1) [of x i0 st0 lg row st'] b by simp
  moreover have "list_all2 Q xs rows'"
    using Cons.IH [OF _ r] Cons.prems(1) by simp
  ultimately show ?case using rows by simp
qed

lemma executeSlot_Returned:
  assumes "executeSlot A sensors states edgeServer s = Returned (out, s')"
  shows "length sensors \<le> length states \<and>
         (sensors = [] \<and> decisions out = [] \<and> newStates out = [] \<and> sensorResults out = []
          \<or> (\<exists>e rows. edgeServer = Some e \<and>
                tsraLoop A e (edgeServerAllocation sensors states) (zip sensors states) s
                  = Returned (rows, s') \<and>
                decisions out = map fst rows \<and> newStates out = map (fst \<circ> snd) rows \<and>
                sensorResults out = map (snd \<circ> snd) rows))"
  using assms
  by (auto simp: executeSlot_def Let_def split: if_splits option.splits outcome.splits)

lemma executeSlotPredictive_Returned:
  assumes "executeSlotPredictive P env sensors states edgeServer sl st = (logs, Returned (out, st'))"
  shows "length sensors \<le> length states \<and>
         (sensors = [] \<and> decisions out = [] \<and> newStates out = [] \<and> sensorResults out = []
          \<or> (\<exists>e rows. edgeServer = Some e \<and>
                ptsraLoop (\<lambda>i (sensor, state). ptsraSensor P env e (edgeServerAllocation sensors states) sl i sensor state)
                  0 (zip sensors states) st = (logs, Returned (rows, st')) \<and>
                decisions out = map fst rows \<and> newStates out = map (fst \<circ> snd) rows \<and>
                sensorResults out = map (snd \<circ> snd) rows))"
  using assms
  by (auto simp: executeSlotPredictive_def Let_def split: if_splits option.splits prod.splits outcome.splits)

lemma tsraSensor_commit:
  "tsraSensor A e al sensor state s =
     (case drawEvents sensor s of
        None \<Rightarrow> NonFinite
      | Some ev \<Rightarrow>
          (let kap = taskSchedulingDecision state
           in Returned
                (commitRow A e al sensor state ev kap
                   (if offload_mode sensor = Fractional
                    then (if fst ev > 0 then (real kap * fst ev) / fst ev else 0) else real kap)
                   (real kap)
                   (localCPUFrequencyAllocation A sensor state)
                   (transmissionPowerAllocation A sensor state (fst (snd (snd ev)))),
                 snd (snd (snd ev)))))"
  by (simp add: tsraSensor_def commitRow_def drawEvents_def split_def Let_def
      calculateTransmissionRate_def calculateLocalEnergy_def calculateTransmissionEnergy_def
      split: option.splits)

lemma ptsraSensor_NonFinite:
  "drawEvents sensor (rng st) = None \<Longrightarrow>
     ptsraSensor P env e al sl i sensor state st = ([], NonFinite)"
  by (simp add: ptsraSensor_def drawEvents_def split_def Let_def split: option.splits)

lemma ptsraSensor_events:
  assumes "drawEvents sensor (rng st) = Some ev"
  shows "ptsraSensor P env e al sl i sensor state st =
     (let st1 = afterEvents sensor ev st;
          predictions = predictFuture P st1 (mathRandom env sl i) sensor (horizon P);
          oa = optimizeAlpha P (clock env sl i) sensor state predictions (opt_rng st1)
      in if horizon P > 0
         then (case snd oa of
                 Returned ((a, fu, pu), os) \<Rightarrow>
                   (map (\<lambda>e. e\<lparr>log_slot := sl\<rparr>) (fst oa),
                    Returned (commitRow (tsra P) e al sensor state ev (if a \<ge> 0.5 then 1 else 0) a a fu pu,
                              st1\<lparr>opt_rng := os\<rparr>))
               | TypeError \<Rightarrow> (map (\<lambda>e. e\<lparr>log_slot := sl\<rparr>) (fst oa), TypeError)
               | NonFinite \<Rightarrow> (map (\<lambda>e. e\<lparr>log_slot := sl\<rparr>) (fst oa), NonFinite))
         else ([], Returned
                 (commitRow (tsra P) e al sensor state ev (taskSchedulingDecision state)
                    (real (taskSchedulingDecision state)) (real (taskSchedulingDecision state))
                    (localCPUFrequencyAllocation (tsra P) sensor state)
                    (transmissionPowerAllocation (tsra P) sensor state (fst (snd (snd ev)))),
                  st1)))"
proof -
  obtain a h g s3 where ev: "ev = (a, h, g, s3)" by (cases ev) auto
  have fe: "finiteEvents (fst (generateArrival sensor (rng st)))
              (fst (generateHarvest sensor (snd (generateArrival sensor (rng st)))))
              (fst (generateChannelGain sensor (snd (generateHarvest sensor (snd (generateArrival sensor (rng st)))))))
            = Some (a, h, g)"
    and s3: "snd (generateChannelGain sensor (snd (generateHarvest sensor (snd (generateArrival sensor (rng st)))))) = s3"
    using assms unfolding ev drawEvents_def
    by (auto simp: split_def Let_def split: option.splits)
  show ?thesis
    unfolding ptsraSensor_def
    apply (simp only: split_def Let_def fe s3 option.case prod.case fst_conv snd_conv)
    apply (simp add: ev afterEvents_def commitRow_def Let_def taskSchedulingDecision_def
        split: outcome.splits prod.splits)
    done
qed

lemma ptsraSensor_commit:
  assumes "ptsraSensor P env e al sl i sensor state st = (lg, Returned (row, st'))"
  shows "\<exists>ev a fu pu.
           drawEvents sensor (rng st) = Some ev \<and>
           row = commitRow (tsra P) e al sensor state ev (if a \<ge> 0.5 then 1 else 0) a a fu pu \<and>
           rng st' = snd (snd (snd ev)) \<and>
           (if horizon P > 0
            then (\<exists>os. snd (optimizeAlpha P (clock env sl i) sensor state
                              (predictFuture P (afterEvents sensor ev st) (mathRandom env sl i) sensor (horizon P))
                              (opt_rng (afterEvents sensor ev st)))
                          = Returned ((a, fu, pu), os) \<and>
                        st' = (afterEvents sensor ev st)\<lparr>opt_rng := os\<rparr>)
            else a = real (taskSchedulingDecision state) \<and>
                 fu = localCPUFrequencyAllocation (tsra P) sensor state \<and>
                 pu = transmissionPowerAllocation (tsra P) sensor state (fst (snd (snd ev))) \<and>
                 lg = [])"
proof (cases "drawEvents sensor (rng st)")
  case None
  from ptsraSensor_NonFinite [OF None] assms show ?thesis by simp
next
  case (Some ev)
  have r: "rng (afterEvents sensor ev st) = snd (snd (snd ev))"
    by (simp add: afterEvents_def updateHistory_def)
  show ?thesis
  proof (cases "horizon P > 0")
    case True
    define oa where "oa = optimizeAlpha P (clock env sl i) sensor state
        (predictFuture P (afterEvents sensor ev st) (mathRandom env sl i) sensor (horizon P))
        (opt_rng (afterEvents sensor ev st))"
    from assms True obtain a fu pu os where o: "snd oa = Returned ((a, fu, pu), os)"
      and row: "row = commitRow (tsra P) e al sensor state ev (if a \<ge> 0.5 then 1 else 0) a a fu pu"
      and st': "st' = (afterEvents sensor ev st)\<lparr>opt_rng := os\<rparr>"
      unfolding ptsraSensor_events [OF Some] oa_def Let_def
      by (auto split: outcome.splits)
    show ?thesis using True Some row st' r o unfolding oa_def
      by (intro exI [of _ ev] exI [of _ a] exI [of _ fu] exI [of _ pu]) simp
  next
    case False
    from assms False
    have lg: "lg = []" and st': "st' = afterEvents sensor ev st"
      and row: "row = commitRow (tsra P) e al sensor state ev (taskSchedulingDecision state)
                    (real (taskSchedulingDecision state)) (real (taskSchedulingDecision state))
                    (localCPUFrequencyAllocation (tsra P) sensor state)
                    (transmissionPowerAllocation (tsra P) sensor state (fst (snd (snd ev))))"
      unfolding ptsraSensor_events [OF Some] Let_def by simp_all
    show ?thesis using False Some lg st' r
      by (intro exI [of _ ev] exI [of _ "real (taskSchedulingDecision state)"]
          exI [of _ "localCPUFrequencyAllocation (tsra P) sensor state"]
          exI [of _ "transmissionPowerAllocation (tsra P) sensor state (fst (snd (snd ev)))"])
         (auto simp: row taskSchedulingDecision_def)
  qed
qed

lemma list_all2_right: "list_all2 (\<lambda>x y. R y) xs ys \<Longrightarrow> list_all R ys"
  by (induction xs ys rule: list_all2_induct) simp_all

lemma list_all2_zip_left:
  assumes "list_all2 (\<lambda>x y. R (snd x) y) (zip xs ys) zs" and "length xs \<le> length ys"
  shows "list_all2 R (take (length xs) ys) zs"
proof -
  have "list_all2 R (map snd (zip xs ys)) zs"
    using assms(1) by (simp add: list_all2_map1)
  moreover have "map snd (zip xs ys) = take (length xs) ys"
    using assms(2) by (simp add: map_snd_zip_take)
  ultimately show ?thesis by simp
qed

section \<open>Events\<close>

lemma generateChannelGain_pos: "fst (generateChannelGain sensor s) = Finite g \<Longrightarrow> 0 < g"
  by (auto simp: generateChannelGain_def js_max_def split_def Let_def less_max_iff_disj
      split: number.splits)

lemma transmissionPowerAllocation_nonneg: "0 \<le> transmissionPowerAllocation A sensor state g"
  by (simp add: transmissionPowerAllocation_def Let_def)

lemma taskSchedulingDecision_bit:
  "taskSchedulingDecision state = 0 \<or> taskSchedulingDecision state = 1"
  by (simp add: taskSchedulingDecision_def)

lemma finiteEvents_Some:
  "finiteEvents a h g = Some (x, y, z) \<longleftrightarrow> a = Finite x \<and> h = Finite y \<and> g = Finite z"
  by (auto simp: finiteEvents_def split: number.splits)

lemma drawEvents_props:
  assumes "nonneg_events sensor" and "drawEvents sensor s = Some ev"
  shows "0 \<le> fst ev \<and> 0 \<le> fst (snd ev) \<and> 0 < fst (snd (snd ev))"
proof -
  obtain a h g s3 where ev: "ev = (a, h, g, s3)" by (cases ev) auto
  define s1 where "s1 = snd (generateArrival sensor s)"
  define s2 where "s2 = snd (generateHarvest sensor s1)"
  have f: "fst (generateArrival sensor s) = Finite a" "fst (generateHarvest sensor s1) = Finite h"
    "fst (generateChannelGain sensor s2) = Finite g"
    using assms(2) unfolding ev drawEvents_def s1_def s2_def
    by (auto simp: split_def Let_def finiteEvents_Some split: option.splits)
  have "nonneg_number (Finite a)" "nonneg_number (Finite h)"
    using assms(1) f(1,2) unfolding nonneg_events_def by metis+
  then show ?thesis using generateChannelGain_pos [OF f(3)]
    by (simp add: ev nonneg_number_def)
qed

lemma gaussian_Finite:
  "fst (random s) \<noteq> 0 \<Longrightarrow>
     gaussian m sd s =
       (Finite (sqrt (- 2 * ln (fst (random s))) * cos (2 * pi * fst (random (snd (random s)))) * sd + m),
        snd (random (snd (random s))))"
  by (simp add: gaussian_def split_def Let_def)

lemma gaussian_zero_draw:
  "fst (random s) = 0 \<Longrightarrow> fst (gaussian m 0 s) = NaN"
  by (simp add: gaussian_def js_plus_def js_times_def split_def Let_def)

lemma random_0: "fst (random 0) \<noteq> 0"
  by (simp add: random_def fl53_def imul_def Let_def)

lemma ex_events:
  "generateArrival ex_sensor s = (Finite 1, s)" "generateHarvest ex_sensor s = (Finite 1, s)"
  by (simp_all add: generateArrival_def generateHarvest_def ex_sensor_def js_or_def Let_def)

lemma ex_gain:
  "fst (random s) \<noteq> 0 \<Longrightarrow>
     generateChannelGain ex_sensor s = (Finite 1, snd (random (snd (random s))))"
  by (simp add: generateChannelGain_def gaussian_Finite js_max_def ex_sensor_def Let_def)

lemma ex_draw:
  "fst (random s) \<noteq> 0 \<Longrightarrow>
     drawEvents ex_sensor s = Some (1, 1, 1, snd (random (snd (random s))))"
  by (simp add: drawEvents_def ex_events ex_gain finiteEvents_def)

lemma ex_zero_gain:
  "fst (random s) = 0 \<Longrightarrow> fst (generateChannelGain ex_sensor s) = NaN"
  by (simp add: generateChannelGain_def gaussian_zero_draw js_max_def ex_sensor_def split_def Let_def)

lemma ex_zero_draw:
  "fst (random s) = 0 \<Longrightarrow> drawEvents ex_sensor s = None"
  using ex_zero_gain [of s]
  by (simp add: drawEvents_def ex_events finiteEvents_def split_def Let_def)

section \<open>The fallback of the predictive policy\<close>

lemma ptsraSensor_fallback:
  assumes "horizon P = 0"
  shows "case tsraSensor (tsra P) e al sensor state (rng st) of
           Returned (rb, s') \<Rightarrow>
             (\<exists>row st'. ptsraSensor P env e al sl i sensor state st = ([], Returned (row, st')) \<and>
                rng st' = s' \<and> same_decision (fst rb) (fst row) \<and>
                subproblem_decision (tsra P) sensor state (fst rb) \<and>
                fst (snd row) = fst (snd rb))
         | TypeError \<Rightarrow> False
         | NonFinite \<Rightarrow> ptsraSensor P env e al sl i sensor state st = ([], NonFinite)"
proof (cases "drawEvents sensor (rng st)")
  case None
  then show ?thesis using ptsraSensor_NonFinite [OF None]
    by (simp add: tsraSensor_commit)
next
  case (Some ev)
  have r: "rng (afterEvents sensor ev st) = snd (snd (snd ev))"
    by (simp add: afterEvents_def updateHistory_def)
  show ?thesis
    using assms r
    unfolding tsraSensor_commit ptsraSensor_events [OF Some] Some
    by (auto simp: Let_def commitRow_def same_decision_def subproblem_decision_def)
qed

lemma fallback_loop:
  assumes "horizon P = 0"
  shows "case tsraLoop (tsra P) e al xs (rng st) of
           Returned (rowsb, s') \<Rightarrow>
             (\<exists>rows st'.
                ptsraLoop (\<lambda>i (sensor, state). ptsraSensor P env e al sl i sensor state) i xs st
                  = ([], Returned (rows, st')) \<and>
                rng st' = s' \<and>
                list_all2 (\<lambda>rb rp. same_decision (fst rb) (fst rp) \<and> fst (snd rp) = fst (snd rb))
                  rowsb rows \<and>
                list_all2 (\<lambda>x rb. subproblem_decision (tsra P) (fst x) (snd x) (fst rb)) xs rowsb)
         | TypeError \<Rightarrow> False
         | NonFinite \<Rightarrow>
             ptsraLoop (\<lambda>i (sensor, state). ptsraSensor P env e al sl i sensor state) i xs st
               = ([], NonFinite)"
proof (induction xs arbitrary: i st)
  case Nil
  then show ?case by simp
next
  case (Cons x xs)
  obtain sensor state where x: "x = (sensor, state)" by (cases x)
  note f = ptsraSensor_fallback [OF assms, where e = e and al = al and sensor = sensor and state = state
      and st = st and env = env and sl = sl and i = i]
  show ?case
  proof (cases "tsraSensor (tsra P) e al sensor state (rng st)")
    case TypeError
    then show ?thesis using f by simp
  next
    case NonFinite
    then show ?thesis using f by (simp add: x)
  next
    case (Returned a)
    obtain rb s1 where a: "a = (rb, s1)" by (cases a)
    from f Returned a obtain row st1 where
      s: "ptsraSensor P env e al sl i sensor state st = ([], Returned (row, st1))"
      and r1: "rng st1 = s1"
      and d: "same_decision (fst rb) (fst row)"
      and sp: "subproblem_decision (tsra P) sensor state (fst rb)"
      and ns: "fst (snd row) = fst (snd rb)"
      by auto
    note ih = Cons.IH [where st = st1 and i = "i + 1"]
    show ?thesis
    proof (cases "tsraLoop (tsra P) e al xs s1")
      case TypeError
      then show ?thesis using ih r1 by simp
    next
      case NonFinite
      then show ?thesis using ih r1 s Returned a
        by (simp add: x consRow_def)
    next
      case (Returned b)
      obtain rowsb s2 where b: "b = (rowsb, s2)" by (cases b)
      from ih Returned b r1 obtain rows st' where
        l: "ptsraLoop (\<lambda>i (sensor, state). ptsraSensor P env e al sl i sensor state) (i + 1) xs st1
              = ([], Returned (rows, st'))"
        and r2: "rng st' = s2"
        and all: "list_all2 (\<lambda>rb rp. same_decision (fst rb) (fst rp) \<and> fst (snd rp) = fst (snd rb))
                    rowsb rows"
        and sub: "list_all2 (\<lambda>x rb. subproblem_decision (tsra P) (fst x) (snd x) (fst rb)) xs rowsb"
        by auto
      have "ptsraLoop (\<lambda>i (sensor, state). ptsraSensor P env e al sl i sensor state) i (x # xs) st
              = ([], Returned (row # rows, st'))"
        using s l by (simp add: x consRow_def)
      then show ?thesis
        using \<open>tsraSensor (tsra P) e al sensor state (rng st) = Returned a\<close> a Returned b r2 d sp ns all sub
        by (simp add: x)
    qed
  qed
qed

lemma executeSlot_single:
  assumes "drawEvents sensor s = Some ev"
  shows "\<exists>out s'. executeSlot A [sensor] [state] (Some e) s = Returned (out, s') \<and>
           length (decisions out) = 1 \<and> length (newStates out) = 1 \<and>
           length (sensorResults out) = 1"
  using assms by (simp add: executeSlot_def tsraSensor_commit Let_def)

lemma ptsraSensor_total:
  assumes "drawEvents sensor (rng st) = Some ev"
    and "horizon P = 0 \<or>
         (0 < tournamentSize (ga P) \<and> 0 < populationSize (ga P) \<and> eliteCount (ga P) \<le> populationSize (ga P))"
  shows "\<exists>lg row st'. ptsraSensor P env e al sl i sensor state st = (lg, Returned (row, st'))"
proof (cases "horizon P = 0")
  case True
  then have "ptsraSensor P env e al sl i sensor state st =
               ([], Returned
                  (commitRow (tsra P) e al sensor state ev (taskSchedulingDecision state)
                     (real (taskSchedulingDecision state)) (real (taskSchedulingDecision state))
                     (localCPUFrequencyAllocation (tsra P) sensor state)
                     (transmissionPowerAllocation (tsra P) sensor state (fst (snd (snd ev)))),
                   afterEvents sensor ev st))"
    unfolding ptsraSensor_events [OF assms(1)] by (simp add: Let_def)
  then show ?thesis by blast
next
  case False
  then have G: "0 < tournamentSize (ga P)" "0 < populationSize (ga P)"
    "eliteCount (ga P) \<le> populationSize (ga P)" using assms(2) by simp_all
  define oa where "oa = optimizeAlpha P (clock env sl i) sensor state
      (predictFuture P (afterEvents sensor ev st) (mathRandom env sl i) sensor (horizon P))
      (opt_rng (afterEvents sensor ev st))"
  have "case snd oa of Returned x \<Rightarrow> True | TypeError \<Rightarrow> False | NonFinite \<Rightarrow> False"
    using optimizeAlpha_props [OF G(1), where elapsed = "clock env sl i" and sensor = sensor
        and state = state
        and predictions = "predictFuture P (afterEvents sensor ev st) (mathRandom env sl i) sensor (horizon P)"
        and s = "opt_rng (afterEvents sensor ev st)"] G(2,3)
    unfolding oa_def by (auto split: outcome.splits)
  then obtain a fu pu os where o: "snd oa = Returned ((a, fu, pu), os)"
    by (cases "snd oa") auto
  have "ptsraSensor P env e al sl i sensor state st =
          (map (\<lambda>e. e\<lparr>log_slot := sl\<rparr>) (fst oa),
           Returned (commitRow (tsra P) e al sensor state ev (if a \<ge> 0.5 then 1 else 0) a a fu pu,
                     (afterEvents sensor ev st)\<lparr>opt_rng := os\<rparr>))"
    using False o unfolding ptsraSensor_events [OF assms(1)] oa_def Let_def by simp
  then show ?thesis by blast
qed

lemma executeSlotPredictive_single:
  assumes "drawEvents sensor (rng st) = Some ev"
    and "horizon P = 0 \<or>
         (0 < tournamentSize (ga P) \<and> 0 < populationSize (ga P) \<and> eliteCount (ga P) \<le> populationSize (ga P))"
  shows "\<exists>logs out st'.
           executeSlotPredictive P env [sensor] [state] (Some e) sl st = (logs, Returned (out, st')) \<and>
           length (decisions out) = 1 \<and> length (newStates out) = 1 \<and>
           length (sensorResults out) = 1"
proof -
  from ptsraSensor_total [OF assms, of env e "edgeServerAllocation [sensor] [state]" sl 0 state]
  obtain lg row st' where
    "ptsraSensor P env e (edgeServerAllocation [sensor] [state]) sl 0 sensor state st
       = (lg, Returned (row, st'))"
    by blast
  then show ?thesis
    by (simp add: executeSlotPredictive_def consRow_def Let_def)
qed

lemma ex_ptsra_ga:
  "0 < tournamentSize (ga (ex_ptsra h)) \<and> 0 < populationSize (ga (ex_ptsra h)) \<and>
   eliteCount (ga (ex_ptsra h)) \<le> populationSize (ga (ex_ptsra h))"
  by (simp add: ex_ptsra_def newPTSRAAlgorithm_def newGeneticOptimizer_def ex_optimizer_def)

lemma ex_pstate_rng: "rng ex_pstate = 0"
  by (simp add: ex_pstate_def newPTSRAAlgorithm_def SeededRandom_def)

text \<open>
  Claim C3. With prediction horizon 0 the predictive policy does not call the optimizer.
  On the same sensors, states, edge server and generator state as the baseline policy it
  raises exactly when the baseline does, draws a number that is not finite exactly when
  the baseline does, and otherwise logs nothing and makes, sensor by sensor, the
  baseline's decision: \<open>alpha\<close> is the baseline scheduling bit, and \<open>kappa\<close>, \<open>f_u\<close>,
  \<open>p_u\<close> and \<open>xi_u\<close> are the baseline's, which are the solutions of sub-problems 1, 2
  and 3; the new states are equal too.
\<close>

theorem predictive_fallback:
  assumes "horizon P = 0"
  shows "case executeSlot (tsra P) sensors states edgeServer (rng st) of
           TypeError \<Rightarrow> snd (executeSlotPredictive P env sensors states edgeServer sl st) = TypeError
         | NonFinite \<Rightarrow> snd (executeSlotPredictive P env sensors states edgeServer sl st) = NonFinite
         | Returned (b, s') \<Rightarrow>
             (\<exists>p st'. executeSlotPredictive P env sensors states edgeServer sl st = ([], Returned (p, st')) \<and>
                rng st' = s' \<and>
                list_all2 same_decision (decisions b) (decisions p) \<and>
                list_all2 (\<lambda>x d. subproblem_decision (tsra P) (fst x) (snd x) d)
                  (zip sensors states) (decisions b) \<and>
                newStates p = newStates b)"
proof (cases "length states < length sensors")
  case True
  then show ?thesis by (simp add: executeSlot_def executeSlotPredictive_def)
next
  case False
  show ?thesis
  proof (cases edgeServer)
    case None
    then show ?thesis using False
      by (simp add: executeSlot_def executeSlotPredictive_def)
  next
    case (Some e)
    note f = fallback_loop [OF assms, where e = e and al = "edgeServerAllocation sensors states"
        and xs = "zip sensors states" and st = st and env = env and sl = sl and i = 0]
    show ?thesis
    proof (cases "tsraLoop (tsra P) e (edgeServerAllocation sensors states) (zip sensors states) (rng st)")
      case TypeError
      then show ?thesis using f by simp
    next
      case NonFinite
      then show ?thesis using f False Some
        by (simp add: executeSlot_def executeSlotPredictive_def Let_def)
    next
      case (Returned a)
      obtain rowsb s' where a: "a = (rowsb, s')" by (cases a)
      from f Returned a obtain rows st' where
        l: "ptsraLoop (\<lambda>i (sensor, state). ptsraSensor P env e (edgeServerAllocation sensors states) sl i sensor state)
              0 (zip sensors states) st = ([], Returned (rows, st'))"
        and r: "rng st' = s'"
        and all: "list_all2 (\<lambda>rb rp. same_decision (fst rb) (fst rp) \<and> fst (snd rp) = fst (snd rb))
                    rowsb rows"
        and sub: "list_all2 (\<lambda>x rb. subproblem_decision (tsra P) (fst x) (snd x) (fst rb))
                    (zip sensors states) rowsb"
        by auto
      have d: "list_all2 same_decision (map fst rowsb) (map fst rows)"
        using all by (simp add: list_all2_map1 list_all2_map2 list_all2_mono)
      have n: "map (fst \<circ> snd) rows = map (fst \<circ> snd) rowsb"
        using all by (induction rule: list_all2_induct) simp_all
      have sd: "list_all2 (\<lambda>x d. subproblem_decision (tsra P) (fst x) (snd x) d) (zip sensors states)
                  (map fst rowsb)"
        using sub by (simp add: list_all2_map2)
      show ?thesis using False Some Returned a l r d n sd
        by (simp add: executeSlot_def executeSlotPredictive_def Let_def)
    qed
  qed
qed

text \<open>One sensor, horizon 0: both policies return, with one decision each.\<close>

theorem predictive_fallback_witness:
  "horizon (ex_ptsra 0) = 0 \<and>
   (\<exists>b s' p st'.
      executeSlot (tsra (ex_ptsra 0)) [ex_sensor] [ex_drained] (Some ex_edge) (rng ex_pstate)
        = Returned (b, s') \<and>
      executeSlotPredictive (ex_ptsra 0) ex_env [ex_sensor] [ex_drained] (Some ex_edge) 0 ex_pstate
        = ([], Returned (p, st')) \<and>
      length (decisions b) = 1 \<and>
      list_all2 same_decision (decisions b) (decisions p) \<and>
      newStates p = newStates b)"
proof -
  have h: "horizon (ex_ptsra 0) = 0" by (simp add: ex_ptsra_def newPTSRAAlgorithm_def)
  have ev: "drawEvents ex_sensor (rng ex_pstate) = Some (1, 1, 1, snd (random (snd (random 0))))"
    unfolding ex_pstate_rng by (rule ex_draw [OF random_0])
  from executeSlot_single [OF ev, of "tsra (ex_ptsra 0)" ex_drained ex_edge]
  obtain b s' where
    e: "executeSlot (tsra (ex_ptsra 0)) [ex_sensor] [ex_drained] (Some ex_edge) (rng ex_pstate)
          = Returned (b, s')"
    and bl: "length (decisions b) = 1"
    by auto
  from predictive_fallback [OF h, where sensors = "[ex_sensor]" and states = "[ex_drained]"
      and edgeServer = "Some ex_edge" and st = ex_pstate and env = ex_env and sl = 0] e bl h
  show ?thesis by auto
qed

section \<open>Non-negative queues and battery\<close>

lemma commitRow_nonneg:
  assumes "0 \<le> a" "a \<le> 1" "0 \<le> fst ev" "0 \<le> fst (snd ev)" "0 \<le> pu" "0 < fst (snd (snd ev))"
    and "0 < noise_power_W (globalParams A)" "0 \<le> bandwidth A" "0 \<le> tau A"
  shows "nonneg_state (fst (snd (commitRow A e al sensor state ev kap alphaOut a fu pu))) \<and>
         nonneg_result (snd (snd (commitRow A e al sensor state ev kap alphaOut a fu pu)))"
proof -
  have snr: "0 \<le> (pu * fst (snd (snd ev))) / noise_power_W (globalParams A)"
    using assms by simp
  then have "0 \<le> log 2 (1 + (pu * fst (snd (snd ev))) / noise_power_W (globalParams A))"
    by simp
  then have co: "0 \<le> bandwidth A * log 2 (1 + (pu * fst (snd (snd ev))) / noise_power_W (globalParams A)) * tau A"
    using assms by simp
  have la: "0 \<le> (1 - a) * fst ev" "0 \<le> a * fst ev" using assms by simp_all
  show ?thesis
    using co la assms(4)
    by (simp add: commitRow_def nonneg_state_def nonneg_result_def Let_def)
qed

lemma baseline_rows_nonneg:
  assumes "list_all nonneg_events sensors"
    and "0 < noise_power_W (globalParams A)" "0 \<le> bandwidth A" "0 \<le> tau A"
    and "tsraLoop A e al (zip sensors states) s = Returned (rows, s')"
  shows "list_all (\<lambda>row. nonneg_state (fst (snd row)) \<and> nonneg_result (snd (snd row))) rows"
proof (rule list_all2_right [where xs = "zip sensors states"], rule tsraLoop_all2 [OF _ assms(5)])
  fix sensor state s1 row s2
  assume "(sensor, state) \<in> set (zip sensors states)"
    and b: "tsraSensor A e al sensor state s1 = Returned (row, s2)"
  then have "sensor \<in> set sensors" by (auto dest: set_zip_leftD)
  then have ne: "nonneg_events sensor" using assms(1) by (simp add: list_all_iff)
  have k: "0 \<le> real (taskSchedulingDecision state)" "real (taskSchedulingDecision state) \<le> 1"
    using taskSchedulingDecision_bit [of state] by auto
  from b obtain ev where ev: "drawEvents sensor s1 = Some ev"
    and row: "row = commitRow A e al sensor state ev (taskSchedulingDecision state)
                (if offload_mode sensor = Fractional
                 then (if fst ev > 0 then (real (taskSchedulingDecision state) * fst ev) / fst ev else 0)
                 else real (taskSchedulingDecision state))
                (real (taskSchedulingDecision state))
                (localCPUFrequencyAllocation A sensor state)
                (transmissionPowerAllocation A sensor state (fst (snd (snd ev))))"
    unfolding tsraSensor_commit by (auto simp: Let_def split: option.splits)
  show "nonneg_state (fst (snd row)) \<and> nonneg_result (snd (snd row))"
    unfolding row
    using drawEvents_props [OF ne ev] k assms(2-4)
    by (intro commitRow_nonneg transmissionPowerAllocation_nonneg) simp_all
qed

lemma predictive_rows_nonneg:
  assumes "list_all (\<lambda>sensor. nonneg_events sensor \<and> 0 \<le> p_max_W sensor) sensors"
    and "0 < noise_power_W (globalParams (tsra P))" "0 \<le> bandwidth (tsra P)" "0 \<le> tau (tsra P)"
    and "0 < tournamentSize (ga P)"
    and "ptsraLoop (\<lambda>i (sensor, state). ptsraSensor P env e al sl i sensor state) i0
           (zip sensors states) st = (logs, Returned (rows, st'))"
  shows "list_all (\<lambda>row. nonneg_state (fst (snd row)) \<and> nonneg_result (snd (snd row))) rows"
proof (rule list_all2_right [where xs = "zip sensors states"], rule ptsraLoop_all2 [OF _ assms(6)])
  fix i x st0 lg row st1
  assume x: "x \<in> set (zip sensors states)"
    and b: "(case x of (sensor, state) \<Rightarrow> ptsraSensor P env e al sl i sensor state) st0
              = (lg, Returned (row, st1))"
  obtain sensor state where xs: "x = (sensor, state)" by (cases x)
  have "sensor \<in> set sensors" using x xs by (auto dest: set_zip_leftD)
  then have ne: "nonneg_events sensor" and pm: "0 \<le> p_max_W sensor"
    using assms(1) by (simp_all add: list_all_iff)
  from b xs have "ptsraSensor P env e al sl i sensor state st0 = (lg, Returned (row, st1))" by simp
  from ptsraSensor_commit [OF this] obtain ev a fu pu where
    ev: "drawEvents sensor (rng st0) = Some ev"
    and row: "row = commitRow (tsra P) e al sensor state ev (if a \<ge> 0.5 then 1 else 0) a a fu pu"
    and d: "if horizon P > 0
            then (\<exists>os. snd (optimizeAlpha P (clock env sl i) sensor state
                              (predictFuture P (afterEvents sensor ev st0) (mathRandom env sl i) sensor (horizon P))
                              (opt_rng (afterEvents sensor ev st0)))
                          = Returned ((a, fu, pu), os) \<and>
                        st1 = (afterEvents sensor ev st0)\<lparr>opt_rng := os\<rparr>)
            else a = real (taskSchedulingDecision state) \<and>
                 fu = localCPUFrequencyAllocation (tsra P) sensor state \<and>
                 pu = transmissionPowerAllocation (tsra P) sensor state (fst (snd (snd ev))) \<and>
                 lg = []"
    by blast
  have ab: "0 \<le> a \<and> a \<le> 1 \<and> 0 \<le> pu"
  proof (cases "horizon P > 0")
    case True
    with d obtain os where
      o: "snd (optimizeAlpha P (clock env sl i) sensor state
                 (predictFuture P (afterEvents sensor ev st0) (mathRandom env sl i) sensor (horizon P))
                 (opt_rng (afterEvents sensor ev st0)))
            = Returned ((a, fu, pu), os)"
      by auto
    from optimizeAlpha_props [OF assms(5), where elapsed = "clock env sl i" and sensor = sensor
        and state = state
        and predictions = "predictFuture P (afterEvents sensor ev st0) (mathRandom env sl i) sensor (horizon P)"
        and s = "opt_rng (afterEvents sensor ev st0)"] o pm
    show ?thesis by auto
  next
    case False
    with d taskSchedulingDecision_bit [of state] transmissionPowerAllocation_nonneg
    show ?thesis by auto
  qed
  show "nonneg_state (fst (snd row)) \<and> nonneg_result (snd (snd row))"
    unfolding row using drawEvents_props [OF ne ev] ab assms(2-4)
    by (intro commitRow_nonneg) simp_all
qed

lemma baseline_slot_nonneg:
  assumes "executeSlot A sensors states edgeServer s = Returned (out, s')"
    and "list_all nonneg_events sensors"
    and "0 < noise_power_W (globalParams A)" "0 \<le> bandwidth A" "0 \<le> tau A"
  shows "list_all nonneg_state (newStates out) \<and> list_all nonneg_result (sensorResults out)"
proof -
  from executeSlot_Returned [OF assms(1)]
  consider "newStates out = []" "sensorResults out = []"
    | e rows where
        "tsraLoop A e (edgeServerAllocation sensors states) (zip sensors states) s = Returned (rows, s')"
        "newStates out = map (fst \<circ> snd) rows" "sensorResults out = map (snd \<circ> snd) rows"
    by blast
  then show ?thesis
  proof cases
    case 1
    then show ?thesis by simp
  next
    case 2
    then show ?thesis
      using baseline_rows_nonneg [OF assms(2-5) 2(1)]
      by (simp add: list_all_iff)
  qed
qed

lemma predictive_slot_nonneg:
  assumes "executeSlotPredictive P env sensors states edgeServer sl st = (logs, Returned (out, st'))"
    and "list_all (\<lambda>sensor. nonneg_events sensor \<and> 0 \<le> p_max_W sensor) sensors"
    and "0 < noise_power_W (globalParams (tsra P))" "0 \<le> bandwidth (tsra P)" "0 \<le> tau (tsra P)"
    and "0 < tournamentSize (ga P)"
  shows "list_all nonneg_state (newStates out) \<and> list_all nonneg_result (sensorResults out)"
proof -
  from executeSlotPredictive_Returned [OF assms(1)]
  consider "newStates out = []" "sensorResults out = []"
    | e rows where
        "ptsraLoop (\<lambda>i (sensor, state). ptsraSensor P env e (edgeServerAllocation sensors states) sl i sensor state)
           0 (zip sensors states) st = (logs, Returned (rows, st'))"
        "newStates out = map (fst \<circ> snd) rows" "sensorResults out = map (snd \<circ> snd) rows"
    by blast
  then show ?thesis
  proof cases
    case 1
    then show ?thesis by simp
  next
    case 2
    then show ?thesis
      using predictive_rows_nonneg [OF assms(2-6) 2(1)]
      by (simp add: list_all_iff)
  qed
qed

lemma slotLoop_invariant:
  assumes "\<And>sl ls. Inv (fst ls) \<Longrightarrow>
             (case body sl ls of None \<Rightarrow> True | Some (Inl final) \<Rightarrow> Inv final
              | Some (Inr ls') \<Rightarrow> Inv (fst ls'))"
    and "\<And>st. Inv st \<Longrightarrow> Inv (st\<lparr>status := Completed\<rparr>)"
    and "Inv (fst ls)"
    and "slotLoop body n sl ls = Some final"
  shows "Inv final"
  using assms(3,4)
proof (induction n arbitrary: sl ls)
  case 0
  then show ?case using assms(2) by auto
next
  case (Suc n)
  note b = assms(1) [OF Suc.prems(1), of sl]
  show ?case
  proof (cases "body sl ls")
    case None
    then show ?thesis using Suc.prems(2) by simp
  next
    case (Some r)
    show ?thesis
    proof (cases r)
      case (Inl f)
      then show ?thesis using b Some Suc.prems(2) by simp
    next
      case (Inr ls')
      then have "Inv (fst ls')" using b Some by simp
      moreover have "slotLoop body n (sl + 1) ls' = Some final"
        using Suc.prems(2) Some Inr by simp
      ultimately show ?thesis by (rule Suc.IH)
    qed
  qed
qed

lemma slotBody_nonneg:
  assumes "list_all (\<lambda>sensor. nonneg_events sensor \<and> 0 \<le> p_max_W sensor) (cfg_sensors config)"
    and "0 < noise_power_W (globalParams A)" "0 \<le> bandwidth A" "0 \<le> tau A"
    and "tsra P = A" "0 < tournamentSize (ga P)"
    and "results_nonneg (fst ls)"
  shows "case slotBody config env A P edgeServer sl ls of
           None \<Rightarrow> True
         | Some (Inl final) \<Rightarrow> results_nonneg final
         | Some (Inr ls') \<Rightarrow> results_nonneg (fst ls')"
proof -
  obtain state tsraRng tsraStates pst ptsraStates where
    ls: "ls = (state, tsraRng, tsraStates, pst, ptsraStates)" by (cases ls)
  have inv: "results_nonneg state" using assms(7) ls by simp
  have ev: "list_all nonneg_events (cfg_sensors config)"
    using assms(1) by (simp add: list_all_iff)
  show ?thesis
  proof (cases "executeSlot A (cfg_sensors config) tsraStates edgeServer tsraRng")
    case TypeError
    then show ?thesis using inv by (simp add: slotBody_def ls results_nonneg_def)
  next
    case NonFinite
    then show ?thesis by (simp add: slotBody_def ls)
  next
    case (Returned a)
    obtain tres rng' where a: "a = (tres, rng')" by (cases a)
    have tn: "list_all nonneg_result (sensorResults tres)"
      using baseline_slot_nonneg [OF Returned [unfolded a] ev assms(2-4)] by simp
    obtain logs r where p: "executeSlotPredictive P env (cfg_sensors config) ptsraStates edgeServer sl pst = (logs, r)"
      by (cases "executeSlotPredictive P env (cfg_sensors config) ptsraStates edgeServer sl pst")
    show ?thesis
    proof (cases r)
      case TypeError
      then show ?thesis using inv tn Returned a p
        by (simp add: slotBody_def ls results_nonneg_def Let_def)
    next
      case NonFinite
      then show ?thesis using Returned a p
        by (simp add: slotBody_def ls Let_def)
    next
      case (Returned b)
      obtain pres pst' where b: "b = (pres, pst')" by (cases b)
      have pn: "list_all nonneg_result (sensorResults pres)"
        using predictive_slot_nonneg [OF p [unfolded Returned b] assms(1)] assms(2-6) by simp
      show ?thesis
        using inv tn pn \<open>executeSlot A (cfg_sensors config) tsraStates edgeServer tsraRng = Returned a\<close>
          a p Returned b
        by (simp add: slotBody_def ls results_nonneg_def Let_def)
    qed
  qed
qed

lemma initial_states_nonneg:
  "list_all (\<lambda>sensor. 0 \<le> initial_queue_bits sensor \<and> 0 \<le> battery_J sensor) ss \<Longrightarrow>
     list_all nonneg_state (initializeSensorStates ss)"
  by (simp add: initializeSensorStates_def nonneg_state_def list_all_iff)

text \<open>
  In a run whose numbers stay finite the four state components are never negative: in
  the initial states and in every sensor result recorded for either policy.
\<close>

lemma finite_run_nonneg:
  assumes "valid_config config" and "runSimulation config env runId = Some final"
  shows "list_all nonneg_state (initializeSensorStates (cfg_sensors config)) \<and>
         results_nonneg final"
proof -
  have s: "list_all valid_sensor (cfg_sensors config)" using assms(1) by (simp add: valid_config_def)
  have init: "list_all nonneg_state (initializeSensorStates (cfg_sensors config))"
    using s by (intro initial_states_nonneg) (simp add: list_all_iff valid_sensor_def)
  have ev: "list_all (\<lambda>sensor. nonneg_events sensor \<and> 0 \<le> p_max_W sensor) (cfg_sensors config)"
    using s by (simp add: list_all_iff valid_sensor_def)
  define A where "A = \<lparr>alg_V = cfg_V config, tau = slot_duration_s config,
               bandwidth = bandwidth_Hz config, globalParams = global_params config\<rparr>"
  define Pp where "Pp = newPTSRAAlgorithm (cfg_V config) (slot_duration_s config) (bandwidth_Hz config)
                       (global_params config) (cfg_seed config + 1) (prediction_horizon config)
                       (optimizer config)"
  define edgeServer where "edgeServer = (case edge_servers config of [] \<Rightarrow> None | e # _ \<Rightarrow> Some e)"
  define ls0 where "ls0 = (\<lparr>run_id = runId, status = Running, current_slot = 0,
                   total_slots = slots config, tsra_results = [], ptsra_results = [],
                   optimizer_log = []\<rparr>, SeededRandom (cfg_seed config),
                   initializeSensorStates (cfg_sensors config), snd Pp,
                   initializeSensorStates (cfg_sensors config))"
  have A: "0 < noise_power_W (globalParams A)" "0 \<le> bandwidth A" "0 \<le> tau A"
    using assms(1) by (simp_all add: A_def valid_config_def)
  have P: "tsra (fst Pp) = A" "0 < tournamentSize (ga (fst Pp))"
    by (simp_all add: Pp_def A_def newPTSRAAlgorithm_def newGeneticOptimizer_def)
  have r: "slotLoop (slotBody config env A (fst Pp) edgeServer) (slots config) 0 ls0 = Some final"
    using assms(2) unfolding runSimulation_def A_def Pp_def edgeServer_def ls0_def
    by (simp add: split_def Let_def)
  have i0: "results_nonneg (fst ls0)" by (simp add: ls0_def results_nonneg_def)
  have "results_nonneg final"
    by (rule slotLoop_invariant [where Inv = results_nonneg, OF slotBody_nonneg [OF ev A P] _ i0 r])
       (simp_all add: results_nonneg_def)
  then show ?thesis using init by simp
qed

lemma ex_valid_sensor: "valid_sensor ex_sensor"
  by (simp add: valid_sensor_def nonneg_events_def ex_events nonneg_number_def)
     (simp add: ex_sensor_def)

text \<open>
  Claim C1. For a configuration in the data model's parameter domain, with arrivals,
  harvests, initial queues and initial battery not negative, the state components
  should never be negative. The channel gain is \<open>Math.max(1e-10, gaussian(mean, std))\<close>,
  which is meant to keep the gain positive but lets NaN through. With one sensor of
  channel variance 0, fixed arrivals, constant harvests and seed 2463401483 the
  configuration is in the domain; the first value of the baseline generator is exactly
  0, the first channel gain is NaN, and the first baseline slot computes with it: the
  transmit power, the offloaded bits and with them the recorded \<open>H_o\<close> and \<open>H_k\<close> are
  NaN, which is not a number \<open>\<ge> 0\<close>. The run of the model ends at that slot.
\<close>

theorem channel_gain_nan:
  "valid_config ex_zero_draw_config \<and>
   fst (random (SeededRandom (cfg_seed ex_zero_draw_config))) = 0 \<and>
   fst (generateChannelGain ex_sensor (SeededRandom (cfg_seed ex_zero_draw_config))) = NaN \<and>
   executeSlot ex_tsra (cfg_sensors ex_zero_draw_config)
     (initializeSensorStates (cfg_sensors ex_zero_draw_config)) (Some ex_edge)
     (SeededRandom (cfg_seed ex_zero_draw_config)) = NonFinite \<and>
   runSimulation ex_zero_draw_config ex_env ''run'' = None"
proof -
  have v: "valid_config ex_zero_draw_config"
    using ex_valid_sensor
    by (simp add: valid_config_def ex_zero_draw_config_def ex_config_def ex_global_def)
  have sd: "SeededRandom (cfg_seed ex_zero_draw_config) = 2463401483"
    by (simp add: ex_zero_draw_config_def ex_config_def SeededRandom_def)
  have z: "fst (random 2463401483) = 0"
    by (simp add: random_def fl53_def imul_def Let_def)
  have g: "fst (generateChannelGain ex_sensor 2463401483) = NaN"
    by (rule ex_zero_gain [OF z])
  have d: "drawEvents ex_sensor 2463401483 = None" by (rule ex_zero_draw [OF z])
  have ss: "cfg_sensors ex_zero_draw_config = [ex_sensor]"
    by (simp add: ex_zero_draw_config_def ex_config_def)
  have e: "executeSlot A [ex_sensor] (initializeSensorStates [ex_sensor]) (Some ex_edge) 2463401483
             = NonFinite" for A
    using d by (simp add: executeSlot_def tsraSensor_commit initializeSensorStates_def Let_def)
  have b: "slotBody ex_zero_draw_config env A P (Some ex_edge) sl
             (state, 2463401483, initializeSensorStates [ex_sensor], pst, ps) = None"
    for env A P sl state pst ps
    by (simp add: slotBody_def ss e)
  have n: "slots ex_zero_draw_config = 3"
    and es: "edge_servers ex_zero_draw_config = [ex_edge]"
    by (simp_all add: ex_zero_draw_config_def ex_config_def)
  have r: "runSimulation ex_zero_draw_config ex_env ''run'' = None"
    unfolding runSimulation_def by (simp add: split_def Let_def sd ss es n b numeral_3_eq_3)
  show ?thesis using v z g e r by (simp add: sd ss)
qed

section \<open>The battery update\<close>

lemma commitRow_battery:
  "battery_rule state (snd (snd (commitRow A e al sensor state ev kap alphaOut a fu pu)))"
  by (simp add: commitRow_def battery_rule_def Let_def max_def)

lemma baseline_rows_battery:
  assumes "tsraLoop A e al (zip sensors states) s = Returned (rows, s')"
  shows "list_all2 (\<lambda>x row. battery_rule (snd x) (snd (snd row))) (zip sensors states) rows"
proof (rule tsraLoop_all2 [OF _ assms])
  fix sensor state s1 row s2
  assume "tsraSensor A e al sensor state s1 = Returned (row, s2)"
  then obtain ev kap ao a fu pu where "row = commitRow A e al sensor state ev kap ao a fu pu"
    unfolding tsraSensor_commit by (auto simp: Let_def split: option.splits)
  then show "battery_rule (snd (sensor, state)) (snd (snd row))"
    by (simp add: commitRow_battery)
qed

lemma predictive_rows_battery:
  assumes "ptsraLoop (\<lambda>i (sensor, state). ptsraSensor P env e al sl i sensor state) i0
           (zip sensors states) st = (logs, Returned (rows, st'))"
  shows "list_all2 (\<lambda>x row. battery_rule (snd x) (snd (snd row))) (zip sensors states) rows"
proof (rule ptsraLoop_all2 [OF _ assms])
  fix i x st0 lg row st1
  assume b: "(case x of (sensor, state) \<Rightarrow> ptsraSensor P env e al sl i sensor state) st0
               = (lg, Returned (row, st1))"
  obtain sensor state where xs: "x = (sensor, state)" by (cases x)
  from b xs have "ptsraSensor P env e al sl i sensor state st0 = (lg, Returned (row, st1))" by simp
  from ptsraSensor_commit [OF this] obtain ev a fu pu where
    row: "row = commitRow (tsra P) e al sensor state ev (if a \<ge> 0.5 then 1 else 0) a a fu pu"
    by blast
  show "battery_rule (snd x) (snd (snd row))"
    unfolding row xs snd_conv by (rule commitRow_battery)
qed

lemma ex_freq: "localCPUFrequencyAllocation ex_tsra ex_sensor ex_drained = 1"
  by (simp add: localCPUFrequencyAllocation_def ex_tsra_def ex_sensor_def ex_drained_def ex_global_def Let_def)

lemma ex_power: "transmissionPowerAllocation ex_tsra ex_sensor ex_drained g = 0"
  by (simp add: transmissionPowerAllocation_def ex_drained_def Let_def)

text \<open>
  Claim C5, as stated: \<open>B' \<le> B + harvest - E_loc\<close>. It fails for the baseline policy on
  an empty battery: with \<open>H_l = 3\<close> and \<open>B = 0\<close> sub-problem 2 returns \<open>f_u = 1\<close>, the
  local energy is 1, the harvest is 1 and the new battery is 1, not at most 0.
\<close>

theorem battery_counterexample:
  "executeSlot ex_tsra [ex_sensor] [ex_drained] (Some ex_edge) 0 \<noteq> TypeError \<and>
   executeSlot ex_tsra [ex_sensor] [ex_drained] (Some ex_edge) 0 \<noteq> NonFinite \<and>
   B_u ex_drained = 0 \<and> harvest_J ex_baseline_result = 1 \<and>
   local_energy_J ex_baseline_result = 1 \<and> res_battery_J ex_baseline_result = 1 \<and>
   \<not> res_battery_J ex_baseline_result
       \<le> B_u ex_drained + harvest_J ex_baseline_result - local_energy_J ex_baseline_result"
proof -
  define s' where "s' = snd (random (snd (random 0)))"
  have d: "drawEvents ex_sensor 0 = Some (1, 1, 1, s')"
    unfolding s'_def by (rule ex_draw [OF random_0])
  have "tsraSensor ex_tsra ex_edge al ex_sensor ex_drained 0 =
          Returned
            ((\<lparr>dec_kappa = 1, dec_alpha = 1, dec_f_u = 1, dec_p_u = 0,
               dec_xi_u = getAllocation al ''s1''\<rparr>,
              \<lparr>H_l = 2, H_o = 1, H_k = max 0 (- getAllocation al ''s1''), B_u = 1\<rparr>,
              \<lparr>res_id = ''s1'', res_H_l = 2, res_H_o = 1, res_H_k = max 0 (- getAllocation al ''s1''),
               res_alpha = 1, local_energy_J = 1, tx_energy_J = 0, p_tx_W = 0, f_cpu_Hz = 1,
               arrival_bits = 1, harvest_J = 1, res_battery_J = 1\<rparr>), s')" for al
    unfolding tsraSensor_commit d
    apply (simp add: commitRow_def ex_freq ex_power Let_def)
    apply (simp add: taskSchedulingDecision_def ex_tsra_def ex_sensor_def ex_drained_def
        ex_global_def ex_edge_def)
    done
  then have e: "executeSlot ex_tsra [ex_sensor] [ex_drained] (Some ex_edge) 0 =
      Returned (\<lparr>decisions = [\<lparr>dec_kappa = 1, dec_alpha = 1, dec_f_u = 1, dec_p_u = 0,
                    dec_xi_u = getAllocation (edgeServerAllocation [ex_sensor] [ex_drained]) ''s1''\<rparr>],
                 newStates = [\<lparr>H_l = 2, H_o = 1,
                    H_k = max 0 (- getAllocation (edgeServerAllocation [ex_sensor] [ex_drained]) ''s1''),
                    B_u = 1\<rparr>],
                 sensorResults = [\<lparr>res_id = ''s1'', res_H_l = 2, res_H_o = 1,
                    res_H_k = max 0 (- getAllocation (edgeServerAllocation [ex_sensor] [ex_drained]) ''s1''),
                    res_alpha = 1, local_energy_J = 1, tx_energy_J = 0, p_tx_W = 0, f_cpu_Hz = 1,
                    arrival_bits = 1, harvest_J = 1, res_battery_J = 1\<rparr>],
                 edgeResult = edgeResultOf (tau ex_tsra) ex_edge
                    (edgeServerAllocation [ex_sensor] [ex_drained]) [ex_sensor]\<rparr>, s')"
    by (simp add: executeSlot_def Let_def)
  show ?thesis unfolding ex_baseline_result_def e
    by (simp add: ex_drained_def)
qed

text \<open>
  Claim C5, amended. For every sensor and every slot of either policy,
  \<open>B' - B = harvest - E_loc + max(0, E_loc - B)\<close>: clipping at zero adds the energy that
  the battery did not hold, so \<open>B' \<ge> B + harvest - E_loc\<close>, with equality when
  \<open>B \<ge> E_loc\<close>.
\<close>

theorem battery_update:
  "(executeSlot A sensors states edgeServer s = Returned (out, s') \<longrightarrow>
      list_all2 battery_rule (take (length sensors) states) (sensorResults out)) \<and>
   (executeSlotPredictive P env sensors pstates edgeServer sl st = (logs, Returned (pout, st')) \<longrightarrow>
      list_all2 battery_rule (take (length sensors) pstates) (sensorResults pout))"
proof (intro conjI impI)
  assume a: "executeSlot A sensors states edgeServer s = Returned (out, s')"
  from executeSlot_Returned [OF a]
  consider "sensors = []" "sensorResults out = []"
    | e rows where "length sensors \<le> length states"
        "tsraLoop A e (edgeServerAllocation sensors states) (zip sensors states) s = Returned (rows, s')"
        "sensorResults out = map (snd \<circ> snd) rows"
    by blast
  then show "list_all2 battery_rule (take (length sensors) states) (sensorResults out)"
  proof cases
    case 1
    then show ?thesis by simp
  next
    case 2
    have "list_all2 (\<lambda>x y. battery_rule (snd x) y) (zip sensors states) (sensorResults out)"
      unfolding 2(3) using baseline_rows_battery [OF 2(2)]
      by (simp add: list_all2_map2)
    then show ?thesis using 2(1) by (rule list_all2_zip_left)
  qed
next
  assume a: "executeSlotPredictive P env sensors pstates edgeServer sl st = (logs, Returned (pout, st'))"
  from executeSlotPredictive_Returned [OF a]
  consider "sensors = []" "sensorResults pout = []"
    | e rows where "length sensors \<le> length pstates"
        "ptsraLoop (\<lambda>i (sensor, state). ptsraSensor P env e (edgeServerAllocation sensors pstates) sl i sensor state)
           0 (zip sensors pstates) st = (logs, Returned (rows, st'))"
        "sensorResults pout = map (snd \<circ> snd) rows"
    by blast
  then show "list_all2 battery_rule (take (length sensors) pstates) (sensorResults pout)"
  proof cases
    case 1
    then show ?thesis by simp
  next
    case 2
    have "list_all2 (\<lambda>x y. battery_rule (snd x) y) (zip sensors pstates) (sensorResults pout)"
      unfolding 2(3) using predictive_rows_battery [OF 2(2)]
      by (simp add: list_all2_map2)
    then show ?thesis using 2(1) by (rule list_all2_zip_left)
  qed
qed

text \<open>One sensor, one slot of each policy (horizon 1 for the predictive one).\<close>

theorem battery_update_witness:
  "\<exists>out s' logs pout st'.
     executeSlot ex_tsra [ex_sensor] [ex_drained] (Some ex_edge) 0 = Returned (out, s') \<and>
     executeSlotPredictive (ex_ptsra 1) ex_env [ex_sensor] [ex_drained] (Some ex_edge) 0 ex_pstate
       = (logs, Returned (pout, st')) \<and>
     length (sensorResults out) = 1 \<and> length (sensorResults pout) = 1 \<and>
     list_all2 battery_rule (take (length [ex_sensor]) [ex_drained]) (sensorResults out) \<and>
     list_all2 battery_rule (take (length [ex_sensor]) [ex_drained]) (sensorResults pout)"
proof -
  have ev: "drawEvents ex_sensor 0 = Some (1, 1, 1, snd (random (snd (random 0))))"
    by (rule ex_draw [OF random_0])
  from executeSlot_single [OF ev, of ex_tsra ex_drained ex_edge]
  obtain out s' where b: "executeSlot ex_tsra [ex_sensor] [ex_drained] (Some ex_edge) 0 = Returned (out, s')"
    and bl: "length (sensorResults out) = 1"
    by auto
  from executeSlotPredictive_single [OF ev [folded ex_pstate_rng], of "ex_ptsra 1" ex_env ex_drained ex_edge 0]
    ex_ptsra_ga [of 1]
  obtain logs pout st' where
    p: "executeSlotPredictive (ex_ptsra 1) ex_env [ex_sensor] [ex_drained] (Some ex_edge) 0 ex_pstate
          = (logs, Returned (pout, st'))"
    and pl: "length (sensorResults pout) = 1"
    by auto
  from battery_update [of ex_tsra "[ex_sensor]" "[ex_drained]" "Some ex_edge" 0 out s'
      "ex_ptsra 1" ex_env "[ex_drained]" 0 ex_pstate logs pout st'] b p bl pl
  show ?thesis by simp
qed

section \<open>The reported scheduling bit\<close>

lemma optimizeAlpha_alpha:
  assumes "snd (optimizeAlpha P elapsed sensor state predictions s) = Returned ((a, fu, pu), os)"
  shows "\<exists>result.
           snd (optimize (ga P)
                  (\<lambda>individual. fitnessFunction P individual sensor state predictions
                     (alg_V (tsra P)) (tau (tsra P)) (bandwidth (tsra P)) (globalParams (tsra P)))
                  3 [(0, 1), (0.1, 1), (0, 1)] s) = Returned (result, os) \<and>
           a = genes (best result) ! 0"
  using assms
  by (auto simp: optimizeAlpha_def split_def Let_def split: outcome.splits)

lemma ptsraSensor_bestAlpha:
  assumes "0 < horizon P"
    and "ptsraSensor P env e al sl i sensor state st = (lg, Returned (row, st'))"
  shows "bestAlpha P env sl i sensor state st = Some (dec_alpha (fst row), st') \<and>
         kappa_rounds_alpha (dec_alpha (fst row)) (fst row)"
proof -
  from ptsraSensor_commit [OF assms(2)] obtain ev a fu pu where
    ev: "drawEvents sensor (rng st) = Some ev"
    and row: "row = commitRow (tsra P) e al sensor state ev (if a \<ge> 0.5 then 1 else 0) a a fu pu"
    and d: "if horizon P > 0
            then (\<exists>os. snd (optimizeAlpha P (clock env sl i) sensor state
                              (predictFuture P (afterEvents sensor ev st) (mathRandom env sl i) sensor (horizon P))
                              (opt_rng (afterEvents sensor ev st)))
                          = Returned ((a, fu, pu), os) \<and>
                        st' = (afterEvents sensor ev st)\<lparr>opt_rng := os\<rparr>)
            else a = real (taskSchedulingDecision state) \<and>
                 fu = localCPUFrequencyAllocation (tsra P) sensor state \<and>
                 pu = transmissionPowerAllocation (tsra P) sensor state (fst (snd (snd ev))) \<and>
                 lg = []"
    by blast
  from d assms(1) obtain os where
    o: "snd (optimizeAlpha P (clock env sl i) sensor state
               (predictFuture P (afterEvents sensor ev st) (mathRandom env sl i) sensor (horizon P))
               (opt_rng (afterEvents sensor ev st)))
          = Returned ((a, fu, pu), os)"
    and st': "st' = (afterEvents sensor ev st)\<lparr>opt_rng := os\<rparr>"
    by auto
  from optimizeAlpha_alpha [OF o] obtain result where
    r: "snd (optimize (ga P)
               (\<lambda>individual. fitnessFunction P individual sensor state
                  (predictFuture P (afterEvents sensor ev st) (mathRandom env sl i) sensor (horizon P))
                  (alg_V (tsra P)) (tau (tsra P)) (bandwidth (tsra P)) (globalParams (tsra P)))
               3 [(0, 1), (0.1, 1), (0, 1)] (opt_rng (afterEvents sensor ev st)))
          = Returned (result, os)"
    and a: "a = genes (best result) ! 0"
    by blast
  have da: "dec_alpha (fst row) = a" and dk: "dec_kappa (fst row) = (if a \<ge> 0.5 then 1 else 0)"
    unfolding row by (simp_all add: commitRow_def Let_def)
  have "bestAlpha P env sl i sensor state st = Some (a, st')"
    unfolding bestAlpha_def ev using r a st' by (simp add: Let_def)
  moreover have "kappa_rounds_alpha a (fst row)"
    using da dk by (simp add: kappa_rounds_alpha_def)
  ultimately show ?thesis using da by simp
qed

lemma bestAlphas_loop:
  assumes "\<And>i x st lg row st1. x \<in> set xs \<Longrightarrow> body i x st = (lg, Returned (row, st1)) \<Longrightarrow>
             \<exists>a. run i x st = Some (a, st1) \<and> R a row"
    and "ptsraLoop body i0 xs st0 = (logs, Returned (rows, st'))"
  shows "\<exists>as. bestAlphas run i0 xs st0 = Some as \<and> list_all2 R as rows"
  using assms
proof (induction xs arbitrary: i0 st0 logs rows st')
  case Nil
  then show ?case by simp
next
  case (Cons x xs)
  from Cons.prems(2) obtain lg row st1 where b: "body i0 x st0 = (lg, Returned (row, st1))"
    and c: "consRow lg row (ptsraLoop body (i0 + 1) xs st1) = (logs, Returned (rows, st'))"
    by (auto simp: consRow_def split: prod.splits outcome.splits)
  from consRow_Returned [OF c] obtain logs' rows' where
    r: "ptsraLoop body (i0 + 1) xs st1 = (logs', Returned (rows', st'))" and rows: "rows = row # rows'"
    by blast
  from Cons.prems(1) [of x i0 st0 lg row st1] b obtain a where
    a: "run i0 x st0 = Some (a, st1)" "R a row"
    by auto
  from Cons.IH [OF _ r] Cons.prems(1) obtain as where
    as: "bestAlphas run (i0 + 1) xs st1 = Some as" "list_all2 R as rows'"
    by auto
  show ?case using a as rows by simp
qed

text \<open>
  Claim C10. In a slot of the predictive policy with horizon \<open>H > 0\<close> that returns, the
  decision of every sensor reports as \<open>alpha\<close> the optimizer's best offload fraction
  for that sensor (\<open>bestAlphas\<close>: the first gene of the best individual of the
  optimizer's run for the sensor, the runs taken in the order of the sensors), and the
  reported \<open>kappa\<close> is 1 if and only if that fraction is at least 0.5, and is 0
  otherwise.
\<close>

theorem predictive_kappa:
  assumes "0 < horizon P"
    and "executeSlotPredictive P env sensors states edgeServer sl st = (logs, Returned (out, st'))"
  shows "length (decisions out) = length sensors \<and>
         (\<exists>alphas.
            bestAlphas (\<lambda>i (sensor, state). bestAlpha P env sl i sensor state) 0
              (zip sensors states) st = Some alphas \<and>
            list_all2 kappa_rounds_alpha alphas (decisions out))"
proof -
  from executeSlotPredictive_Returned [OF assms(2)]
  consider "sensors = []" "decisions out = []"
    | e rows where "length sensors \<le> length states"
        "ptsraLoop (\<lambda>i (sensor, state). ptsraSensor P env e (edgeServerAllocation sensors states) sl i sensor state)
           0 (zip sensors states) st = (logs, Returned (rows, st'))"
        "decisions out = map fst rows"
    by blast
  then show ?thesis
  proof cases
    case 1
    then show ?thesis by simp
  next
    case 2
    have "\<exists>as. bestAlphas (\<lambda>i (sensor, state). bestAlpha P env sl i sensor state) 0
                  (zip sensors states) st = Some as \<and>
               list_all2 (\<lambda>a row. kappa_rounds_alpha a (fst row)) as rows"
    proof (rule bestAlphas_loop [OF _ 2(2)])
      fix i x st0 lg row st1
      assume b: "(case x of (sensor, state) \<Rightarrow>
                    ptsraSensor P env e (edgeServerAllocation sensors states) sl i sensor state) st0
                 = (lg, Returned (row, st1))"
      obtain sensor state where xs: "x = (sensor, state)" by (cases x)
      from b xs have "ptsraSensor P env e (edgeServerAllocation sensors states) sl i sensor state st0
                        = (lg, Returned (row, st1))" by simp
      from ptsraSensor_bestAlpha [OF assms(1) this]
      show "\<exists>a. (case x of (sensor, state) \<Rightarrow> bestAlpha P env sl i sensor state) st0 = Some (a, st1) \<and>
                kappa_rounds_alpha a (fst row)"
        by (simp add: xs)
    qed
    then obtain as where
      as: "bestAlphas (\<lambda>i (sensor, state). bestAlpha P env sl i sensor state) 0
             (zip sensors states) st = Some as"
      and k: "list_all2 (\<lambda>a row. kappa_rounds_alpha a (fst row)) as rows"
      by blast
    have "list_all2 (\<lambda>x row. True) (zip sensors states) rows"
      by (rule ptsraLoop_all2 [OF _ 2(2)]) simp
    then have "length (zip sensors states) = length rows" by (rule list_all2_lengthD)
    then have len: "length (decisions out) = length sensors" using 2(1,3) by simp
    have "list_all2 kappa_rounds_alpha as (decisions out)"
      unfolding 2(3) using k by (simp add: list_all2_map2)
    then show ?thesis using as len by blast
  qed
qed

text \<open>One sensor, horizon 1, a population of two: the slot returns one decision.\<close>

theorem predictive_kappa_witness:
  "0 < horizon (ex_ptsra 1) \<and>
   (\<exists>logs out st' alphas.
      executeSlotPredictive (ex_ptsra 1) ex_env [ex_sensor] [ex_drained] (Some ex_edge) 0 ex_pstate
        = (logs, Returned (out, st')) \<and>
      length (decisions out) = 1 \<and>
      bestAlphas (\<lambda>i (sensor, state). bestAlpha (ex_ptsra 1) ex_env 0 i sensor state) 0
        (zip [ex_sensor] [ex_drained]) ex_pstate = Some alphas \<and>
      list_all2 kappa_rounds_alpha alphas (decisions out))"
proof -
  have ev: "drawEvents ex_sensor (rng ex_pstate) = Some (1, 1, 1, snd (random (snd (random 0))))"
    unfolding ex_pstate_rng by (rule ex_draw [OF random_0])
  from executeSlotPredictive_single [OF ev, of "ex_ptsra 1" ex_env ex_drained ex_edge 0]
    ex_ptsra_ga [of 1]
  obtain logs out st' where
    p: "executeSlotPredictive (ex_ptsra 1) ex_env [ex_sensor] [ex_drained] (Some ex_edge) 0 ex_pstate
          = (logs, Returned (out, st'))"
    by auto
  have h: "0 < horizon (ex_ptsra 1)" by (simp add: ex_ptsra_def newPTSRAAlgorithm_def)
  from predictive_kappa [OF h p] p h show ?thesis by auto
qed

section \<open>The empty sensor list\<close>

lemma slotLoop_completes:
  assumes "\<And>sl ls. I sl ls \<Longrightarrow> \<exists>ls'. body sl ls = Some (Inr ls') \<and> I (sl + 1) ls'"
    and "I sl ls"
  shows "\<exists>ls'. slotLoop body n sl ls = Some ((fst ls')\<lparr>status := Completed\<rparr>) \<and> I (sl + n) ls'"
  using assms(2)
proof (induction n arbitrary: sl ls)
  case 0
  then show ?case by (intro exI [of _ ls]) simp
next
  case (Suc n)
  from assms(1) [OF Suc.prems] obtain ls' where b: "body sl ls = Some (Inr ls')" and i: "I (sl + 1) ls'"
    by blast
  from Suc.IH [OF i] show ?case using b by simp
qed

lemma executeSlot_no_sensors:
  "\<exists>out. executeSlot A [] states edgeServer s = Returned (out, s) \<and>
         newStates out = [] \<and> sensorResults out = []"
  by (cases edgeServer) (simp_all add: executeSlot_def)

lemma executeSlotPredictive_no_sensors:
  "\<exists>out. executeSlotPredictive P env [] states edgeServer sl st = ([], Returned (out, st)) \<and>
         newStates out = [] \<and> sensorResults out = []"
  by (cases edgeServer) (simp_all add: executeSlotPredictive_def)

lemma slotBody_complete:
  assumes "cfg_sensors config = []" and "loop_complete 0 sl ls"
  shows "\<exists>ls'. slotBody config env A P edgeServer sl ls = Some (Inr ls') \<and> loop_complete 0 (sl + 1) ls'"
proof -
  obtain state tsraRng tsraStates pst ptsraStates where
    ls: "ls = (state, tsraRng, tsraStates, pst, ptsraStates)" by (cases ls)
  from executeSlot_no_sensors [of A tsraStates edgeServer tsraRng]
  obtain tres where t: "executeSlot A [] tsraStates edgeServer tsraRng = Returned (tres, tsraRng)"
    and tl: "newStates tres = []" "sensorResults tres = []"
    by blast
  from executeSlotPredictive_no_sensors [of P env ptsraStates edgeServer sl pst]
  obtain pres where
    p: "executeSlotPredictive P env [] ptsraStates edgeServer sl pst = ([], Returned (pres, pst))"
    and pl: "newStates pres = []" "sensorResults pres = []"
    by blast
  show ?thesis
    using t p tl pl assms
    by (simp add: slotBody_def ls loop_complete_def Let_def)
qed

lemma runSimulation_no_sensors:
  assumes "cfg_sensors config = []"
  shows "\<exists>final. runSimulation config env runId = Some final \<and>
           status final = Completed \<and>
           length (tsra_results final) = slots config \<and>
           length (ptsra_results final) = slots config \<and>
           list_all (\<lambda>sr. sensor_results sr = []) (tsra_results final) \<and>
           list_all (\<lambda>sr. sensor_results sr = []) (ptsra_results final) \<and>
           optimizer_log final = []"
proof -
  define A where "A = \<lparr>alg_V = cfg_V config, tau = slot_duration_s config,
               bandwidth = bandwidth_Hz config, globalParams = global_params config\<rparr>"
  define Pp where "Pp = newPTSRAAlgorithm (cfg_V config) (slot_duration_s config) (bandwidth_Hz config)
                       (global_params config) (cfg_seed config + 1) (prediction_horizon config)
                       (optimizer config)"
  define edgeServer where "edgeServer = (case edge_servers config of [] \<Rightarrow> None | e # _ \<Rightarrow> Some e)"
  define state where "state = \<lparr>run_id = runId, status = Running, current_slot = 0,
                   total_slots = slots config, tsra_results = [], ptsra_results = [],
                   optimizer_log = []\<rparr>"
  define ls0 where "ls0 = (state, SeededRandom (cfg_seed config), initializeSensorStates (cfg_sensors config),
                           snd Pp, initializeSensorStates (cfg_sensors config))"
  have i0: "loop_complete 0 0 ls0"
    using assms by (simp add: ls0_def loop_complete_def state_def initializeSensorStates_def)
  from slotLoop_completes [where I = "loop_complete 0"
      and body = "slotBody config env A (fst Pp) edgeServer" and n = "slots config",
      OF slotBody_complete [OF assms] i0]
  obtain ls' where l: "slotLoop (slotBody config env A (fst Pp) edgeServer) (slots config) 0 ls0
                         = Some ((fst ls')\<lparr>status := Completed\<rparr>)"
    and c: "loop_complete 0 (0 + slots config) ls'"
    by blast
  have r: "runSimulation config env runId = Some ((fst ls')\<lparr>status := Completed\<rparr>)"
    using l unfolding runSimulation_def A_def Pp_def edgeServer_def state_def ls0_def
    by (simp add: split_def Let_def)
  obtain st1 rest where ls': "ls' = (st1, rest)" by (cases ls')
  show ?thesis unfolding r using c
    by (auto simp: loop_complete_def ls' split: prod.splits)
qed

text \<open>
  Claim C6, as stated: an empty sensor list is rejected with a configuration error and no
  slot is executed. \<open>runSimulation\<close> checks nothing: on a configuration with no sensor
  and three slots it returns status \<open>Completed\<close> and three slot results for each policy.
\<close>

theorem empty_sensor_list_counterexample:
  "cfg_sensors ex_empty_config = [] \<and>
   runSimulation ex_empty_config ex_env ''run'' \<noteq> None \<and>
   status (the (runSimulation ex_empty_config ex_env ''run'')) = Completed \<and>
   length (tsra_results (the (runSimulation ex_empty_config ex_env ''run''))) = 3 \<and>
   length (ptsra_results (the (runSimulation ex_empty_config ex_env ''run''))) = 3"
proof -
  have c: "cfg_sensors ex_empty_config = []" by (simp add: ex_empty_config_def ex_config_def)
  have s: "slots ex_empty_config = 3" by (simp add: ex_empty_config_def ex_config_def)
  from runSimulation_no_sensors [OF c, of ex_env "''run''"] c s
  show ?thesis by auto
qed

text \<open>
  Claim C6, amended. For every configuration whose sensor list is empty,
  \<open>runSimulation\<close> executes all its slots and returns status \<open>Completed\<close>: each policy
  has one result per slot, every result has no sensor record, and the optimizer log is
  empty.
\<close>

theorem empty_sensor_list_runs:
  assumes "cfg_sensors config = []"
  shows "\<exists>final. runSimulation config env runId = Some final \<and>
           status final = Completed \<and>
           length (tsra_results final) = slots config \<and>
           length (ptsra_results final) = slots config \<and>
           list_all (\<lambda>sr. sensor_results sr = []) (tsra_results final) \<and>
           list_all (\<lambda>sr. sensor_results sr = []) (ptsra_results final) \<and>
           optimizer_log final = []"
  using assms by (rule runSimulation_no_sensors)

text \<open>The configuration of the counterexample.\<close>

theorem empty_sensor_list_runs_witness:
  "cfg_sensors ex_empty_config = [] \<and>
   (\<exists>final. runSimulation ex_empty_config ex_env ''run'' = Some final \<and>
      status final = Completed \<and>
      length (tsra_results final) = slots ex_empty_config \<and>
      length (ptsra_results final) = slots ex_empty_config \<and>
      optimizer_log final = [])"
  using empty_sensor_list_runs [of ex_empty_config ex_env "''run''"]
  by (auto simp: ex_empty_config_def ex_config_def)

section \<open>The edge allocation\<close>










section \<open>The fitness penalty\<close>

lemma fitnessStep_battery_nonneg:
  "0 \<le> harvests predictions ! h \<Longrightarrow>
     0 \<le> B_u (fst (fitnessStep sensor predictions v t bw gp al fu pu h acc))"
  by (simp add: fitnessStep_def Let_def)

text \<open>
  Claim C7. A rollout slot whose local energy exceeds the battery should add \<open>10^6\<close> to
  the fitness. The code tests \<open>B_u < 0\<close> after it has clipped the battery at zero and
  added the harvest: with battery 0.5, local energy 1 and predicted harvest 0 the fitness
  is 1, without the penalty.
\<close>

theorem fitness_no_penalty:
  "B_u ex_state < theta ex_global * (1 * f_max_Hz ex_sensor) ^ 3 * 1 \<and>
   fitnessFunction (ex_ptsra 1) [0, 1, 0] ex_sensor ex_state ex_predictions 1 1 1 ex_global = 1"
  by (simp add: fitnessFunction_def fitnessStep_def ex_ptsra_def newPTSRAAlgorithm_def
      ex_sensor_def ex_state_def ex_predictions_def ex_global_def Let_def)

section \<open>The average latency\<close>

text \<open>
  Claim C8, as stated: the rate is \<open>max(A, 10^5)\<close>. For a sensor with arrival 50000 and
  backlog 50000 the code reports 1000 ms where the formula gives 500 ms.
\<close>

theorem avg_latency_counterexample:
  "avg_latency_ms (calculateGlobalMetrics [ex_result] \<lparr>ES_allocations = []\<rparr>) = 1000 \<and>
   spec_avg_latency_ms [ex_result] = 500"
  by (simp add: calculateGlobalMetrics_def spec_avg_latency_ms_def ex_result_def)

text \<open>
  Claim C8, amended. For every slot with at least one sensor, \<open>avg_latency_ms\<close> is the
  mean over the sensors of \<open>(H_l + H_o + H_k) / r * 1000\<close>, where the rate \<open>r\<close> is the
  sensor's arrival \<open>A\<close> when \<open>A > 0\<close> and \<open>10^5\<close> otherwise.
\<close>

theorem avg_latency_ms_formula:
  assumes "results \<noteq> []"
  shows "avg_latency_ms (calculateGlobalMetrics results e) =
           sum_list (map (\<lambda>r. (res_H_l r + res_H_o r + res_H_k r)
                                 / (if arrival_bits r > 0 then arrival_bits r else 10 ^ 5) * 1000) results)
             / real (length results)"
  by (simp add: calculateGlobalMetrics_def Let_def)

text \<open>The sensor result of the counterexample.\<close>

theorem avg_latency_ms_formula_witness:
  "[ex_result] \<noteq> [] \<and>
   avg_latency_ms (calculateGlobalMetrics [ex_result] \<lparr>ES_allocations = []\<rparr>) =
     sum_list (map (\<lambda>r. (res_H_l r + res_H_o r + res_H_k r)
                           / (if arrival_bits r > 0 then arrival_bits r else 10 ^ 5) * 1000) [ex_result])
       / real (length [ex_result])"
  using avg_latency_ms_formula [of "[ex_result]" "\<lparr>ES_allocations = []\<rparr>"] by simp

end
